theory Spec2Isabelle
  imports Complex_Main "HOL-Library.AList"
begin

section \<open>JavaScript strings\<close>

text \<open>
  A JavaScript string is a sequence of UTF-16 code units. The model keeps the code units
  below 256 as HOL characters; they include the line terminators LF and CR and the white
  space TAB, VT, FF, SP and NBSP. The code units U+2028 and U+2029 (line terminators) and
  the white space above U+00FF are outside the model.
\<close>

definition startsWith :: "string \<Rightarrow> string \<Rightarrow> bool" where
  "startsWith s p = (take (length p) s = p)"

definition endsWith :: "string \<Rightarrow> string \<Rightarrow> bool" where
  "endsWith s p = (length p \<le> length s \<and> drop (length s - length p) s = p)"

text \<open>\<^verbatim>\<open>s.slice(0, -1)\<close>: the string without its last code unit (empty stays empty).\<close>

definition slice_0_m1 :: "string \<Rightarrow> string" where
  "slice_0_m1 s = butlast s"

text \<open>\<^verbatim>\<open>s.split(sep)\<close> for a one-character separator: never the empty array.\<close>

fun js_split :: "char \<Rightarrow> string \<Rightarrow> string list" where
  "js_split sep [] = [[]]"
| "js_split sep (c # cs) =
     (if c = sep then [] # js_split sep cs
      else (case js_split sep cs of
              p # ps \<Rightarrow> (c # p) # ps
            | [] \<Rightarrow> [[c]]))"

text \<open>\<^verbatim>\<open>parts.join(sep)\<close>.\<close>

fun js_join :: "string \<Rightarrow> string list \<Rightarrow> string" where
  "js_join sep [] = []"
| "js_join sep [p] = p"
| "js_join sep (p # q # ps) = p @ sep @ js_join sep (q # ps)"

text \<open>
  \<^verbatim>\<open>toUpperCase\<close> on the letters a to z; the method of a request is an HTTP token, made
  of ASCII characters.
\<close>

definition toUpperCase_char :: "char \<Rightarrow> char" where
  "toUpperCase_char c =
     (let n = (of_char c :: nat) in if 97 \<le> n \<and> n \<le> 122 then char_of (n - 32) else c)"

definition toUpperCase :: "string \<Rightarrow> string" where
  "toUpperCase s = map toUpperCase_char s"

text \<open>White space and line terminators, as \<^verbatim>\<open>trim\<close> removes them at both ends.\<close>

definition js_whitespace :: "char \<Rightarrow> bool" where
  "js_whitespace c = (c \<in> set [CHR 0x09, CHR 0x0A, CHR 0x0B, CHR 0x0C, CHR 0x0D, CHR 0x20, CHR 0xA0])"

definition trim :: "string \<Rightarrow> string" where
  "trim s = rev (dropWhile js_whitespace (rev (dropWhile js_whitespace s)))"

section \<open>JSON values\<close>

text \<open>
  \<^verbatim>\<open>type JsonValue = string | number | boolean | null | JsonObject | JsonArray\<close>.
  An object is the list of its own enumerable properties in the order in which
  \<^verbatim>\<open>for ... in\<close> and \<^verbatim>\<open>JSON.stringify\<close> enumerate them. A number is a finite
  JSON number; the walker never computes with it.
\<close>

datatype JsonValue =
    JString string
  | JNumber rat
  | JBool bool
  | JNull
  | JArray "JsonValue list"
  | JObject "(string \<times> JsonValue) list"

text \<open>A thrown \<^verbatim>\<open>Error\<close>, with its message.\<close>

datatype JsError = JsError (message: string)

text \<open>
  \<^verbatim>\<open>newObj[key] = v\<close> on an object that started as the literal \<^verbatim>\<open>{}\<close>: an own
  property is created at the end of the enumeration order, or overwritten in place. The
  key \<^verbatim>\<open>__proto__\<close> is the exception: the object inherits an accessor of that name from
  \<^verbatim>\<open>Object.prototype\<close>, so the assignment runs its setter (which changes the prototype
  or does nothing) and creates no own property.
\<close>

definition js_assign ::
  "(string \<times> JsonValue) list \<Rightarrow> string \<Rightarrow> JsonValue \<Rightarrow> (string \<times> JsonValue) list" where
  "js_assign obj key v = (if key = ''__proto__'' then obj else AList.update key v obj)"

text \<open>
  \<^verbatim>\<open>JSON.parse(JSON.stringify(structure))\<close>: a structural clone. \<^verbatim>\<open>JSON.parse\<close>
  defines own properties, \<^verbatim>\<open>__proto__\<close> included.
\<close>

fun deep_copy :: "JsonValue \<Rightarrow> JsonValue" where
  "deep_copy (JArray items) = JArray (map deep_copy items)"
| "deep_copy (JObject entries) = JObject (map (\<lambda>kv. (fst kv, deep_copy (snd kv))) entries)"
| "deep_copy v = v"

section \<open>The generator library\<close>

text \<open>
  The object graph below the imported \<^verbatim>\<open>faker\<close>. A generator takes its optional
  argument and the state of the random source, and returns a value or throws, with the
  new state. \<open>FObject\<close> lists the properties that \<^verbatim>\<open>in\<close> finds (own and inherited);
  \<open>FValue\<close> is any value that is neither an object nor a function. Reading a property
  of the graph is taken not to throw.
\<close>

datatype 's FakerNode =
    FObject "(string \<times> 's FakerNode) list"
  | FFunction "JsonValue option \<Rightarrow> 's \<Rightarrow> (JsError + JsonValue) \<times> 's"
  | FValue

text \<open>The loop of \<^verbatim>\<open>getFakerFunction\<close> over \<^verbatim>\<open>parts[1..]\<close>.\<close>

fun descend :: "'s FakerNode \<Rightarrow> string list \<Rightarrow> 's FakerNode option" where
  "descend obj [] = Some obj"
| "descend obj (part # parts) =
     (case obj of
        FObject props \<Rightarrow>
          (case map_of props part of
             Some child \<Rightarrow> descend child parts
           | None \<Rightarrow> None)
      | _ \<Rightarrow> None)"

definition getFakerFunction ::
  "'s FakerNode \<Rightarrow> string \<Rightarrow> (JsonValue option \<Rightarrow> 's \<Rightarrow> (JsError + JsonValue) \<times> 's) option" where
  "getFakerFunction faker path =
     (let parts = js_split CHR ''.'' path in
      if length parts = 0 \<or> hd parts \<noteq> ''faker'' then None
      else (case descend faker (tl parts) of
              Some (FFunction f) \<Rightarrow> Some f
            | _ \<Rightarrow> None))"

section \<open>The template grammar\<close>

text \<open>The class \<^verbatim>\<open>[\w.]\<close>: ASCII letters, digits, underscore, and the dot.\<close>

definition word_char :: "char \<Rightarrow> bool" where
  "word_char c =
     (let n = (of_char c :: nat) in
      (48 \<le> n \<and> n \<le> 57) \<or> (65 \<le> n \<and> n \<le> 90) \<or> (97 \<le> n \<and> n \<le> 122) \<or> n = 95)"

definition path_char :: "char \<Rightarrow> bool" where
  "path_char c = (word_char c \<or> c = CHR ''.'')"

text \<open>The class \<^verbatim>\<open>.\<close> (no flag \<^verbatim>\<open>s\<close>): any code unit but a line terminator.\<close>

definition dot_char :: "char \<Rightarrow> bool" where
  "dot_char c = (c \<noteq> CHR 0x0A \<and> c \<noteq> CHR 0x0D)"

text \<open>
  \<^verbatim>\<open>value.match(/^{{([\w.]+)(?:\((.*)\))?}}$/)\<close>: the two capture groups of the match, or
  \<open>None\<close> for \<^verbatim>\<open>null\<close>. The second group is \<open>None\<close> when the parentheses are absent
  (\<^verbatim>\<open>undefined\<close>). After \<^verbatim>\<open>{{\<close> the first group takes the longest run of path
  characters: the next character must be \<^verbatim>\<open>(\<close> or \<^verbatim>\<open>}\<close>, which are not in the class.
\<close>

definition template_match :: "string \<Rightarrow> (string \<times> string option) option" where
  "template_match value =
     (if startsWith value ''{{'' then
        (let rest = drop 2 value;
             fakerPath = takeWhile path_char rest;
             after = dropWhile path_char rest;
             args = take (length after - 4) (drop 1 after)
         in if fakerPath = [] then None
            else if after = ''}}'' then Some (fakerPath, None)
            else if 4 \<le> length after \<and> startsWith after ''('' \<and> endsWith after '')}}''
                    \<and> list_all dot_char args
                 then Some (fakerPath, Some args)
                 else None)
      else None)"

section \<open>The walker\<close>

text \<open>
  The block under \<^verbatim>\<open>if (match)\<close>. \<open>JSON_parse\<close> is the built-in
  \<^verbatim>\<open>JSON.parse\<close>; the \<^verbatim>\<open>try\<close> block yields a value or the thrown error, and the
  \<^verbatim>\<open>catch\<close> turns the error into the marker string.
\<close>

definition processMatch ::
  "'s FakerNode \<Rightarrow> (string \<Rightarrow> JsError + JsonValue) \<Rightarrow> string \<Rightarrow> string option \<Rightarrow> 's \<Rightarrow>
     JsonValue \<times> 's" where
  "processMatch faker JSON_parse fakerPath argsStringWithParens st =
     (case getFakerFunction faker fakerPath of
        Some fakerFunc \<Rightarrow>
          (case (case argsStringWithParens of
                   Some argsString \<Rightarrow>
                     if trim argsString \<noteq> [] then
                       (case JSON_parse argsString of
                          Inr args \<Rightarrow> fakerFunc (Some args) st
                        | Inl e \<Rightarrow> (Inl e, st))
                     else fakerFunc None st
                 | None \<Rightarrow> fakerFunc None st) of
             (Inr result, st') \<Rightarrow> (result, st')
           | (Inl e, st') \<Rightarrow> (JString (''Error: Faker ('' @ fakerPath @ '')''), st'))
      | None \<Rightarrow> (JString (''Error: Unknown Faker Path ('' @ fakerPath @ '')''), st))"

text \<open>The string branch of \<^verbatim>\<open>processValue\<close>.\<close>

definition processString ::
  "'s FakerNode \<Rightarrow> (string \<Rightarrow> JsError + JsonValue) \<Rightarrow> string \<Rightarrow> 's \<Rightarrow> JsonValue \<times> 's" where
  "processString faker JSON_parse value st =
     (case template_match value of
        Some (fakerPath, argsStringWithParens) \<Rightarrow>
          processMatch faker JSON_parse fakerPath argsStringWithParens st
      | None \<Rightarrow> (JString value, st))"

text \<open>
  \<^verbatim>\<open>processValue\<close>, with the array's \<^verbatim>\<open>map\<close> and the object's \<^verbatim>\<open>for ... in\<close> loop
  as its two companions. The argument \<^verbatim>\<open>pathPrefix\<close> is only logged and is left out.
\<close>

fun processValue ::
    "'s FakerNode \<Rightarrow> (string \<Rightarrow> JsError + JsonValue) \<Rightarrow> JsonValue \<Rightarrow> 's \<Rightarrow> JsonValue \<times> 's"
  and process_items ::
    "'s FakerNode \<Rightarrow> (string \<Rightarrow> JsError + JsonValue) \<Rightarrow> JsonValue list \<Rightarrow> 's \<Rightarrow> JsonValue list \<times> 's"
  and process_keys ::
    "'s FakerNode \<Rightarrow> (string \<Rightarrow> JsError + JsonValue) \<Rightarrow> (string \<times> JsonValue) list \<Rightarrow>
       (string \<times> JsonValue) list \<Rightarrow> 's \<Rightarrow> (string \<times> JsonValue) list \<times> 's"
  where
  "processValue faker JSON_parse (JString v) st = processString faker JSON_parse v st"
| "processValue faker JSON_parse (JArray items) st =
     (case process_items faker JSON_parse items st of (ys, st') \<Rightarrow> (JArray ys, st'))"
| "processValue faker JSON_parse (JObject entries) st =
     (case process_keys faker JSON_parse entries [] st of (newObj, st') \<Rightarrow> (JObject newObj, st'))"
| "processValue faker JSON_parse (JNumber n) st = (JNumber n, st)"
| "processValue faker JSON_parse (JBool b) st = (JBool b, st)"
| "processValue faker JSON_parse JNull st = (JNull, st)"
| "process_items faker JSON_parse [] st = ([], st)"
| "process_items faker JSON_parse (item # rest) st =
     (case processValue faker JSON_parse item st of (y, st1) \<Rightarrow>
        (case process_items faker JSON_parse rest st1 of (ys, st2) \<Rightarrow> (y # ys, st2)))"
| "process_keys faker JSON_parse [] newObj st = (newObj, st)"
| "process_keys faker JSON_parse ((key, v) # rest) newObj st =
     (case processValue faker JSON_parse v st of (v', st1) \<Rightarrow>
        process_keys faker JSON_parse rest (js_assign newObj key v') st1)"

text \<open>The \<^verbatim>\<open>for\<close> loop of \<^verbatim>\<open>generateMockData\<close>, from the counter \<open>i\<close> on.\<close>

function array_loop ::
  "'s FakerNode \<Rightarrow> (string \<Rightarrow> JsError + JsonValue) \<Rightarrow> JsonValue \<Rightarrow> int \<Rightarrow> int \<Rightarrow>
     JsonValue list \<Rightarrow> 's \<Rightarrow> JsonValue list \<times> 's" where
  "array_loop faker JSON_parse structure arrayCount i results st =
     (if i < max 1 arrayCount then
        (case processValue faker JSON_parse (deep_copy structure) st of
           (item, st') \<Rightarrow>
             array_loop faker JSON_parse structure arrayCount (i + 1) (results @ [item]) st')
      else (results, st))"
  by pat_completeness auto
termination
  by (relation "measure (\<lambda>(faker, JSON_parse, structure, arrayCount, i, results, st).
        nat (max 1 arrayCount - i))") auto

definition generateMockData ::
  "'s FakerNode \<Rightarrow> (string \<Rightarrow> JsError + JsonValue) \<Rightarrow> JsonValue \<Rightarrow> bool \<Rightarrow> int \<Rightarrow> 's \<Rightarrow>
     JsonValue \<times> 's" where
  "generateMockData faker JSON_parse structure isArray arrayCount st =
     (if isArray then
        (case array_loop faker JSON_parse structure arrayCount 0 [] st of
           (results, st') \<Rightarrow> (JArray results, st'))
      else processValue faker JSON_parse (deep_copy structure) st)"

declare array_loop.simps [simp del]

section \<open>The store and the pattern matcher\<close>

text \<open>
  A row of \<^verbatim>\<open>mock_endpoints\<close> as the query selects it: the columns of
  \<^verbatim>\<open>DbMockEndpoint\<close> and the joined \<^verbatim>\<open>projects ( base_path )\<close>, which is \<^verbatim>\<open>null\<close>
  (\<open>None\<close>) or an object whose \<^verbatim>\<open>base_path\<close> is \<^verbatim>\<open>null\<close> or a string.
\<close>

record DbMockEndpoint =
  id' :: string
  user_id :: string
  path_template :: string
  http_method :: string
  response_structure :: JsonValue
  is_array :: bool
  array_count :: int
  status_code :: int
  projects :: "string option option"

text \<open>The answer of a query: \<^verbatim>\<open>{ data, error }\<close>.\<close>

record 'a PostgrestResult =
  data :: "'a option"
  error :: "JsError option"

text \<open>
  The two queries that \<^verbatim>\<open>findMatchingMock\<close> sends through \<^verbatim>\<open>supabaseAdmin\<close>:
  the \<^verbatim>\<open>id\<close> of the single profile with a given \<^verbatim>\<open>api_route_prefix\<close>, and the rows
  of \<^verbatim>\<open>mock_endpoints\<close> with a given \<^verbatim>\<open>user_id\<close> and \<^verbatim>\<open>http_method\<close>, in the order
  in which the store answers.
\<close>

record Supabase =
  profiles_single :: "string \<Rightarrow> string PostgrestResult"
  mock_endpoints_select :: "string \<Rightarrow> string \<Rightarrow> DbMockEndpoint list PostgrestResult"

text \<open>
  The imported \<^verbatim>\<open>match(fullPathTemplate, { decode: decodeURIComponent })\<close> applied to the
  request path: it throws, or answers \<^verbatim>\<open>false\<close> (\<open>None\<close>), or answers a match with
  its captured parameters. The library is a parameter of the model.
\<close>

type_synonym params = "(string \<times> string) list"

type_synonym matcher = "string \<Rightarrow> string \<Rightarrow> JsError + params option"

text \<open>Lines 75 to 98 of \<^verbatim>\<open>findMatchingMock\<close>: the full path template of one row.\<close>

definition fullPathTemplate :: "DbMockEndpoint \<Rightarrow> string" where
  "fullPathTemplate mock =
     (case (case projects mock of Some base_path \<Rightarrow> base_path | None \<Rightarrow> None) of
        Some projectBasePath \<Rightarrow>
          if projectBasePath \<noteq> [] then
            (let normProjPath =
                   (if startsWith projectBasePath ''/'' then projectBasePath
                    else ''/'' @ projectBasePath);
                 cleanProjPath =
                   (if length normProjPath > 1 \<and> endsWith normProjPath ''/''
                    then slice_0_m1 normProjPath else normProjPath);
                 normMockPath =
                   (if startsWith (path_template mock) ''/'' then path_template mock
                    else ''/'' @ path_template mock);
                 cleanMockPath =
                   (if length normMockPath > 1 \<and> endsWith normMockPath ''/''
                    then slice_0_m1 normMockPath else normMockPath)
             in if cleanMockPath = ''/'' then cleanProjPath
                else cleanProjPath @ cleanMockPath)
          else
            (let normMockPath =
                   (if startsWith (path_template mock) ''/'' then path_template mock
                    else ''/'' @ path_template mock)
             in if length normMockPath > 1 \<and> endsWith normMockPath ''/''
                then slice_0_m1 normMockPath else normMockPath)
      | None \<Rightarrow>
          (let normMockPath =
                 (if startsWith (path_template mock) ''/'' then path_template mock
                  else ''/'' @ path_template mock)
           in if length normMockPath > 1 \<and> endsWith normMockPath ''/''
              then slice_0_m1 normMockPath else normMockPath))"

text \<open>Lines 101 to 106: the request path from the slug parts.\<close>

definition normalizedReqPath :: "string list \<Rightarrow> string" where
  "normalizedReqPath requestedSlugParts =
     (let requestedPath = ''/'' @ js_join ''/'' requestedSlugParts;
          normalized =
            (if length requestedPath > 1 \<and> endsWith requestedPath ''/''
             then slice_0_m1 requestedPath else requestedPath)
      in if normalized = [] then ''/'' else normalized)"

text \<open>The loop over the rows (step 3): a thrown error leaves the loop and the function.\<close>

fun match_loop :: "matcher \<Rightarrow> string list \<Rightarrow> DbMockEndpoint list \<Rightarrow> JsError + DbMockEndpoint option" where
  "match_loop match_fn requestedSlugParts [] = Inr None"
| "match_loop match_fn requestedSlugParts (mock # rest) =
     (case match_fn (fullPathTemplate mock) (normalizedReqPath requestedSlugParts) of
        Inl e \<Rightarrow> Inl e
      | Inr (Some result) \<Rightarrow> Inr (Some mock)
      | Inr None \<Rightarrow> match_loop match_fn requestedSlugParts rest)"

definition findMatchingMock ::
  "Supabase \<Rightarrow> matcher \<Rightarrow> string \<Rightarrow> string \<Rightarrow> string list \<Rightarrow> JsError + DbMockEndpoint option" where
  "findMatchingMock supabaseAdmin match_fn apiRoutePrefix requestedMethod requestedSlugParts =
     (let profileAnswer = profiles_single supabaseAdmin apiRoutePrefix in
      case data profileAnswer of
        None \<Rightarrow> Inr None
      | Some userId \<Rightarrow>
          if error profileAnswer \<noteq> None then Inr None
          else
            (let mocksAnswer =
                   mock_endpoints_select supabaseAdmin userId (toUpperCase requestedMethod) in
             case data mocksAnswer of
               None \<Rightarrow> Inr None
             | Some userMocksAndProjects \<Rightarrow>
                 if error mocksAnswer \<noteq> None then Inr None
                 else match_loop match_fn requestedSlugParts userMocksAndProjects))"

text \<open>
  A response: its status and the JSON value whose text is the body. The CORS headers do
  not depend on the outcome and are left out.
\<close>

datatype NextResponse = NextResponse (body: JsonValue) (status: int)

text \<open>
  What \<^verbatim>\<open>handleRequest\<close> takes from the platform after a match.
  \<^verbatim>\<open>JSON.stringify(data)\<close> yields the text of the generated value, which the model keeps
  as the value itself, or throws: a generator may return a value without JSON text (a
  BigInt), which stays the leaf that the generator returned. The field
  \<open>JSON_stringify_throws\<close> gives the error thrown, if any. The other two fields are the
  errors that the constructor of a response throws; their messages are the platform's.
\<close>

record Platform =
  JSON_stringify_throws :: "JsonValue \<Rightarrow> JsError option"
  status_RangeError :: JsError
  null_body_TypeError :: "int \<Rightarrow> JsError"

text \<open>
  \<^verbatim>\<open>new NextResponse(body, { status, headers })\<close> with a string as body: the constructor
  throws a \<^verbatim>\<open>RangeError\<close> unless the status is in the range 200 to 599, and a
  \<^verbatim>\<open>TypeError\<close> when the status is a null body status (101, 103, 204, 205 or 304, of
  which the first two are out of range already).
\<close>

definition new_NextResponse :: "Platform \<Rightarrow> JsonValue \<Rightarrow> int \<Rightarrow> JsError + NextResponse" where
  "new_NextResponse platform b s =
     (if s < 200 \<or> 599 < s then Inl (status_RangeError platform)
      else if s = 204 \<or> s = 205 \<or> s = 304 then Inl (null_body_TypeError platform s)
      else Inr (NextResponse b s))"

text \<open>
  The \<^verbatim>\<open>try\<close> block of \<^verbatim>\<open>handleRequest\<close>: the response it returns or the error
  thrown in it, with the state of the random source.
\<close>

definition try_block ::
  "Supabase \<Rightarrow> matcher \<Rightarrow> 's FakerNode \<Rightarrow> (string \<Rightarrow> JsError + JsonValue) \<Rightarrow> Platform \<Rightarrow>
     string \<Rightarrow> string \<Rightarrow> string list \<Rightarrow> 's \<Rightarrow> (JsError + NextResponse) \<times> 's" where
  "try_block supabaseAdmin match_fn faker JSON_parse platform requestedMethod api_route_prefix
     requestedSlugParts st =
     (case findMatchingMock supabaseAdmin match_fn api_route_prefix requestedMethod
             requestedSlugParts of
        Inl e \<Rightarrow> (Inl e, st)
      | Inr (Some mockDefinition) \<Rightarrow>
          (case generateMockData faker JSON_parse (response_structure mockDefinition)
                  (is_array mockDefinition) (array_count mockDefinition) st of
             (generated, st') \<Rightarrow>
               (case JSON_stringify_throws platform generated of
                  Some e \<Rightarrow> (Inl e, st')
                | None \<Rightarrow>
                    (new_NextResponse platform generated (status_code mockDefinition), st')))
      | Inr None \<Rightarrow>
          (new_NextResponse platform
             (JObject [(''error'', JString ''Mock definition not found for this path and method.'')])
             404, st))"

text \<open>The \<^verbatim>\<open>catch\<close> block; the constructor accepts the status 500.\<close>

definition catch_block :: "JsError \<Rightarrow> NextResponse" where
  "catch_block e =
     NextResponse
       (JObject [(''error'', JString ''Internal Server Error''),
                 (''details'', JString (message e))])
       500"

definition handleRequest ::
  "Supabase \<Rightarrow> matcher \<Rightarrow> 's FakerNode \<Rightarrow> (string \<Rightarrow> JsError + JsonValue) \<Rightarrow> Platform \<Rightarrow>
     string \<Rightarrow> string \<Rightarrow> string list option \<Rightarrow> 's \<Rightarrow> NextResponse \<times> 's" where
  "handleRequest supabaseAdmin match_fn faker JSON_parse platform requestedMethod api_route_prefix
     slug st =
     (let requestedSlugParts = (case slug of Some parts \<Rightarrow> parts | None \<Rightarrow> []) in
      case try_block supabaseAdmin match_fn faker JSON_parse platform requestedMethod
             api_route_prefix requestedSlugParts st of
        (Inr response, st') \<Rightarrow> (response, st')
      | (Inl e, st') \<Rightarrow> (catch_block e, st'))"

section \<open>Definitions that follow the specification\<close>

text \<open>
  The regular expression of the template grammar, with the classes it uses, and the
  language it denotes. The anchors \<^verbatim>\<open>^\<close> and \<^verbatim>\<open>$\<close> make a match a match of the
  whole string: membership in the language.
\<close>

datatype regex =
    Lit string
  | OneOrMore "char \<Rightarrow> bool"
  | ZeroOrMore "char \<Rightarrow> bool"
  | Seq regex regex
  | Opt regex

fun lang :: "regex \<Rightarrow> string set" where
  "lang (Lit w) = {w}"
| "lang (OneOrMore cls) = {w. w \<noteq> [] \<and> list_all cls w}"
| "lang (ZeroOrMore cls) = {w. list_all cls w}"
| "lang (Seq r1 r2) = {w. \<exists>u v. w = u @ v \<and> u \<in> lang r1 \<and> v \<in> lang r2}"
| "lang (Opt r) = insert [] (lang r)"

text \<open>\<^verbatim>\<open>^{{([\w.]+)(?:\((.*)\))?}}$\<close>\<close>

definition template_regex :: regex where
  "template_regex =
     Seq (Lit ''{{'')
       (Seq (OneOrMore path_char)
         (Seq (Opt (Seq (Lit ''('') (Seq (ZeroOrMore dot_char) (Lit '')''))))
           (Lit ''}}'')))"

text \<open>
  The two shapes of a generator-call template, \<^verbatim>\<open>{{<dotted.path>}}\<close> and
  \<^verbatim>\<open>{{<dotted.path>(<args>)}}\<close>, and what the grammar asks of their parts.
\<close>

definition template_text :: "string \<Rightarrow> string option \<Rightarrow> string" where
  "template_text p g =
     ''{{'' @ p @ (case g of None \<Rightarrow> [] | Some a \<Rightarrow> ''('' @ a @ '')'') @ ''}}''"

definition well_formed :: "string \<Rightarrow> string option \<Rightarrow> bool" where
  "well_formed p g =
     (p \<noteq> [] \<and> list_all path_char p \<and>
      (case g of None \<Rightarrow> True | Some a \<Rightarrow> list_all dot_char a))"

text \<open>
  Section 4.4: ensure a leading \<^verbatim>\<open>/\<close>, then strip a trailing \<^verbatim>\<open>/\<close> unless the value is
  exactly \<^verbatim>\<open>/\<close>; \<open>compose\<close> of an optional group base path and a path pattern.
\<close>

definition normalize_path :: "string \<Rightarrow> string" where
  "normalize_path p =
     (let q = (if startsWith p ''/'' then p else ''/'' @ p)
      in if q \<noteq> ''/'' \<and> endsWith q ''/'' then butlast q else q)"

definition compose :: "string option \<Rightarrow> string \<Rightarrow> string" where
  "compose groupBasePath pathPattern =
     (case groupBasePath of
        None \<Rightarrow> normalize_path pathPattern
      | Some g \<Rightarrow>
          if normalize_path pathPattern = ''/'' then normalize_path g
          else normalize_path g @ normalize_path pathPattern)"

text \<open>
  Modelled from the spec: the structural match of section 4.5 step 4 and of the design
  notes, standing for the imported library \<^verbatim>\<open>path-to-regexp\<close>, whose code is not part
  of the sources. Pattern and path are cut at \<^verbatim>\<open>/\<close>; the segment counts must agree; a
  literal segment must be equal; a named-parameter segment \<^verbatim>\<open>:name\<close> matches any single
  non-empty segment and captures it under its name.
\<close>

fun match_segments :: "string list \<Rightarrow> string list \<Rightarrow> params option" where
  "match_segments [] [] = Some []"
| "match_segments (p # ps) (s # ss) =
     (if startsWith p '':'' \<and> length p > 1 then
        (if s = [] then None
         else (case match_segments ps ss of
                 Some captured \<Rightarrow> Some ((tl p, s) # captured)
               | None \<Rightarrow> None))
      else if p = s then match_segments ps ss
      else None)"
| "match_segments _ _ = None"

definition structural_match :: matcher where
  "structural_match pattern path =
     Inr (match_segments (js_split CHR ''/'' pattern) (js_split CHR ''/'' path))"

text \<open>
  The state of the random source before walk number \<open>i\<close> of the array mode: each walk
  starts where the walk before it stopped.
\<close>

fun walk_state ::
  "'s FakerNode \<Rightarrow> (string \<Rightarrow> JsError + JsonValue) \<Rightarrow> JsonValue \<Rightarrow> 's \<Rightarrow> nat \<Rightarrow> 's" where
  "walk_state faker JSON_parse structure st 0 = st"
| "walk_state faker JSON_parse structure st (Suc i) =
     walk_state faker JSON_parse structure
       (snd (processValue faker JSON_parse (deep_copy structure) st)) i"

text \<open>
  Section 7: the failures of a leaf that are decided before any generator runs, with the
  marker that replaces the leaf: an unknown dotted path, and argument text that is not
  JSON.
\<close>

definition static_failure ::
  "'s FakerNode \<Rightarrow> (string \<Rightarrow> JsError + JsonValue) \<Rightarrow> string \<Rightarrow> string option" where
  "static_failure faker JSON_parse s =
     (case template_match s of
        None \<Rightarrow> None
      | Some (p, g) \<Rightarrow>
          (case getFakerFunction faker p of
             None \<Rightarrow> Some (''Error: Unknown Faker Path ('' @ p @ '')'')
           | Some f \<Rightarrow>
               (case g of
                  None \<Rightarrow> None
                | Some a \<Rightarrow>
                    if trim a \<noteq> [] \<and> isl (JSON_parse a)
                    then Some (''Error: Faker ('' @ p @ '')'') else None)))"

text \<open>The template in which every such leaf is already its marker.\<close>

fun mark_failures ::
  "'s FakerNode \<Rightarrow> (string \<Rightarrow> JsError + JsonValue) \<Rightarrow> JsonValue \<Rightarrow> JsonValue" where
  "mark_failures faker JSON_parse (JString s) =
     (case static_failure faker JSON_parse s of
        Some marker \<Rightarrow> JString marker
      | None \<Rightarrow> JString s)"
| "mark_failures faker JSON_parse (JArray items) =
     JArray (map (mark_failures faker JSON_parse) items)"
| "mark_failures faker JSON_parse (JObject entries) =
     JObject (map (\<lambda>kv. (fst kv, mark_failures faker JSON_parse (snd kv))) entries)"
| "mark_failures faker JSON_parse v = v"

text \<open>A template without a generator-call string among its leaves.\<close>

fun no_templates :: "JsonValue \<Rightarrow> bool" where
  "no_templates (JString s) = (template_match s = None)"
| "no_templates (JArray items) = list_all no_templates items"
| "no_templates (JObject entries) = list_all (\<lambda>kv. no_templates (snd kv)) entries"
| "no_templates v = True"

text \<open>
  Objects whose keys are pairwise different, as those of every JavaScript object are, and
  of which none is \<^verbatim>\<open>__proto__\<close>.
\<close>

fun plain_keys :: "JsonValue \<Rightarrow> bool" where
  "plain_keys (JArray items) = list_all plain_keys items"
| "plain_keys (JObject entries) =
     (distinct (map fst entries) \<and> ''__proto__'' \<notin> set (map fst entries) \<and>
      list_all (\<lambda>kv. plain_keys (snd kv)) entries)"
| "plain_keys v = True"

section \<open>Concrete inputs\<close>

text \<open>
  A generator library over a counter as its random source: \<^verbatim>\<open>faker.number.int\<close>
  returns the counter and steps it, \<^verbatim>\<open>faker.string.uuid\<close> returns a fixed text,
  \<^verbatim>\<open>faker.helpers.fake\<close> throws, and \<^verbatim>\<open>faker.version\<close> is not a function.
\<close>

definition example_faker :: "nat FakerNode" where
  "example_faker =
     FObject
       [(''number'', FObject [(''int'', FFunction (\<lambda>args n. (Inr (JNumber (of_nat n)), Suc n)))]),
        (''string'', FObject [(''uuid'',
           FFunction (\<lambda>args n. (Inr (JString ''3f2b8c1e-0d4a-4e6f-9a7b-5c1d2e3f4a5b''), Suc n)))]),
        (''helpers'', FObject [(''fake'',
           FFunction (\<lambda>args n. (Inl (JsError ''fake: no pattern''), Suc n)))]),
        (''version'', FValue)]"

text \<open>\<^verbatim>\<open>JSON.parse\<close> at the argument texts used below; other texts do not occur.\<close>

definition example_parse :: "string \<Rightarrow> JsError + JsonValue" where
  "example_parse s =
     (if s = ''{}'' then Inr (JObject [])
      else Inl (JsError ''Unexpected token in JSON''))"

definition example_row :: "string \<Rightarrow> string \<Rightarrow> DbMockEndpoint" where
  "example_row ident pattern =
     \<lparr>id' = ident, user_id = ''u1'', path_template = pattern, http_method = ''GET'',
      response_structure = JObject [(''n'', JNumber 5)], is_array = False, array_count = 1,
      status_code = 200, projects = None\<rparr>"

text \<open>A store with one tenant, prefix \<^verbatim>\<open>acme\<close>, and the given rows.\<close>

definition example_store :: "DbMockEndpoint list \<Rightarrow> Supabase" where
  "example_store rows =
     \<lparr>profiles_single = (\<lambda>prefix.
        if prefix = ''acme'' then \<lparr>data = Some ''u1'', error = None\<rparr>
        else \<lparr>data = None, error = Some (JsError ''no rows'')\<rparr>),
      mock_endpoints_select = (\<lambda>uid method.
        \<lparr>data = Some (filter (\<lambda>m. user_id m = uid \<and> http_method m = method) rows),
         error = None\<rparr>)\<rparr>"

text \<open>The same store when its second query fails.\<close>

definition failing_store :: "DbMockEndpoint list \<Rightarrow> Supabase" where
  "failing_store rows =
     (example_store rows)\<lparr>mock_endpoints_select :=
        (\<lambda>uid method. \<lparr>data = None, error = Some (JsError ''connection refused'')\<rparr>)\<rparr>"

text \<open>A pattern matcher that throws on a pattern it cannot compile.\<close>

definition throwing_match :: matcher where
  "throwing_match pattern path =
     (if pattern = ''/items/:'' then Inl (JsError ''Missing parameter name at 7'')
      else structural_match pattern path)"

text \<open>
  A platform on which every generated value has a JSON text, and one on which
  \<^verbatim>\<open>JSON.stringify\<close> throws.
\<close>

definition example_platform :: Platform where
  "example_platform =
     \<lparr>JSON_stringify_throws = (\<lambda>v. None),
      status_RangeError = JsError ''status out of range'',
      null_body_TypeError = (\<lambda>s. JsError ''null body status'')\<rparr>"

definition refusing_platform :: Platform where
  "refusing_platform =
     example_platform\<lparr>JSON_stringify_throws :=
        (\<lambda>v. Some (JsError ''cannot serialize a BigInt''))\<rparr>"

text \<open>A pattern matcher that drops what \<open>structural_match\<close> captures.\<close>

definition forgetful_match :: matcher where
  "forgetful_match pattern path =
     (case structural_match pattern path of
        Inr (Some captured) \<Rightarrow> Inr (Some [])
      | other \<Rightarrow> other)"

section \<open>The template grammar and its matcher\<close>

lemma not_path_char_close: "\<not> path_char CHR ''}''"
  by (simp add: path_char_def word_char_def)

lemma not_path_char_open: "\<not> path_char CHR ''(''"
  by (simp add: path_char_def word_char_def)

lemma template_match_plain:
  assumes "p \<noteq> []" "list_all path_char p"
  shows "template_match (''{{'' @ p @ ''}}'') = Some (p, None)"
proof -
  have a: "\<forall>c\<in>set p. path_char c" using assms(2) by (simp add: list_all_iff)
  have t: "takeWhile path_char (p @ ''}}'') = p"
    using a by (simp add: not_path_char_close)
  have d: "dropWhile path_char (p @ ''}}'') = ''}}''"
    using a by (simp add: not_path_char_close)
  show ?thesis
    using assms(1) by (simp add: template_match_def startsWith_def t d Let_def)
qed

lemma template_match_args:
  assumes "p \<noteq> []" "list_all path_char p" "list_all dot_char a"
  shows "template_match (''{{'' @ p @ ''('' @ a @ '')}}'') = Some (p, Some a)"
proof -
  have a: "\<forall>c\<in>set p. path_char c" using assms(2) by (simp add: list_all_iff)
  have t: "takeWhile path_char (p @ CHR ''('' # a @ '')}}'') = p"
    using a by (simp add: not_path_char_open)
  have d: "dropWhile path_char (p @ CHR ''('' # a @ '')}}'') = CHR ''('' # a @ '')}}''"
    using a by (simp add: not_path_char_open)
  show ?thesis
    using assms(1,3)
    by (simp add: template_match_def startsWith_def endsWith_def t d Let_def)
qed

lemma template_match_SomeD:
  assumes "template_match s = Some (p, g)"
  shows "p \<noteq> [] \<and> list_all path_char p \<and>
         (case g of None \<Rightarrow> s = ''{{'' @ p @ ''}}''
          | Some a \<Rightarrow> list_all dot_char a \<and> s = ''{{'' @ p @ ''('' @ a @ '')}}'')"
proof -
  define rest where "rest = drop 2 s"
  define after where "after = dropWhile path_char rest"
  have st: "startsWith s ''{{''"
    using assms by (auto simp: template_match_def split: if_splits)
  then have s: "s = ''{{'' @ rest"
    unfolding rest_def startsWith_def
    by (metis append_take_drop_id length_Cons list.size(3) One_nat_def Suc_1)
  have p: "p = takeWhile path_char rest" and pne: "p \<noteq> []"
    using assms st by (auto simp: template_match_def rest_def Let_def split: if_splits)
  have rest: "rest = p @ after"
    by (simp add: p after_def)
  have pc: "list_all path_char p"
    unfolding p list_all_iff by (auto dest: set_takeWhileD)
  show ?thesis
  proof (cases g)
    case None
    then have "after = ''}}''"
      using assms st pne
      by (auto simp: template_match_def rest_def after_def Let_def split: if_splits)
    then show ?thesis using None s rest pne pc by simp
  next
    case (Some a)
    then have c: "4 \<le> length after" "startsWith after ''(''" "endsWith after '')}}''"
      "list_all dot_char a" "a = take (length after - 4) (drop 1 after)"
      using assms st pne
      by (auto simp: template_match_def rest_def after_def Let_def split: if_splits)
    obtain x xs where ax: "after = x # xs" using c(1) by (cases after) auto
    with c(2) have x: "x = CHR ''(''" by (simp add: startsWith_def)
    have l3: "3 \<le> length xs" using c(1) ax by simp
    have "drop (length after - 3) after = '')}}''" using c(3) by (simp add: endsWith_def numeral_3_eq_3)
    then have e: "drop (length xs - 3) xs = '')}}''" using ax l3
      by (simp add: drop_Cons' split: if_splits)
    have "a = take (length xs - 3) xs" using c(5) ax by simp
    then have "xs = a @ '')}}''" using e by (metis append_take_drop_id)
    then show ?thesis using Some s rest ax x c(4) pne pc by simp
  qed
qed

lemma lang_SeqI: "u \<in> lang r1 \<Longrightarrow> v \<in> lang r2 \<Longrightarrow> u @ v \<in> lang (Seq r1 r2)"
  by auto

lemma lang_template_regex:
  "s \<in> lang template_regex \<longleftrightarrow>
     (\<exists>p. p \<noteq> [] \<and> list_all path_char p \<and> s = ''{{'' @ p @ ''}}'') \<or>
     (\<exists>p a. p \<noteq> [] \<and> list_all path_char p \<and> list_all dot_char a \<and>
        s = ''{{'' @ p @ ''('' @ a @ '')}}'')"
proof
  assume "s \<in> lang template_regex"
  then show "(\<exists>p. p \<noteq> [] \<and> list_all path_char p \<and> s = ''{{'' @ p @ ''}}'') \<or>
     (\<exists>p a. p \<noteq> [] \<and> list_all path_char p \<and> list_all dot_char a \<and>
        s = ''{{'' @ p @ ''('' @ a @ '')}}'')"
    unfolding template_regex_def by auto
next
  assume r: "(\<exists>p. p \<noteq> [] \<and> list_all path_char p \<and> s = ''{{'' @ p @ ''}}'') \<or>
     (\<exists>p a. p \<noteq> [] \<and> list_all path_char p \<and> list_all dot_char a \<and>
        s = ''{{'' @ p @ ''('' @ a @ '')}}'')"
  let ?group = "Seq (Lit ''('') (Seq (ZeroOrMore dot_char) (Lit '')''))"
  from r show "s \<in> lang template_regex"
  proof (elim disjE exE conjE)
    fix p
    assume p: "p \<noteq> []" "list_all path_char p" and s: "s = ''{{'' @ p @ ''}}''"
    have "p \<in> lang (OneOrMore path_char)" using p by simp
    moreover have "[] \<in> lang (Opt ?group)" by simp
    moreover have "''}}'' \<in> lang (Lit ''}}'')" by simp
    moreover have "''{{'' \<in> lang (Lit ''{{'')" by simp
    ultimately have "''{{'' @ p @ [] @ ''}}'' \<in> lang template_regex"
      unfolding template_regex_def by (intro lang_SeqI)
    then show ?thesis using s by simp
  next
    fix p a
    assume p: "p \<noteq> []" "list_all path_char p" and a: "list_all dot_char a"
      and s: "s = ''{{'' @ p @ ''('' @ a @ '')}}''"
    have "''('' \<in> lang (Lit ''('')" "a \<in> lang (ZeroOrMore dot_char)" "'')'' \<in> lang (Lit '')'')"
      using a by simp_all
    then have "''('' @ a @ '')'' \<in> lang ?group" by (intro lang_SeqI)
    then have g: "''('' @ a @ '')'' \<in> lang (Opt ?group)" by simp
    have "p \<in> lang (OneOrMore path_char)" using p by simp
    moreover have "''}}'' \<in> lang (Lit ''}}'')" by simp
    moreover have "''{{'' \<in> lang (Lit ''{{'')" by simp
    ultimately have "''{{'' @ p @ (''('' @ a @ '')'') @ ''}}'' \<in> lang template_regex"
      unfolding template_regex_def using g by (intro lang_SeqI)
    then show ?thesis using s by simp
  qed
qed

lemma template_match_iff: "template_match s \<noteq> None \<longleftrightarrow> s \<in> lang template_regex"
proof
  assume "template_match s \<noteq> None"
  then obtain p g where m: "template_match s = Some (p, g)" by auto
  from template_match_SomeD [OF m] show "s \<in> lang template_regex"
    unfolding lang_template_regex by (cases g) auto
next
  assume "s \<in> lang template_regex"
  then show "template_match s \<noteq> None"
    unfolding lang_template_regex
    using template_match_plain template_match_args by fastforce
qed

section \<open>Properties of the walker\<close>

lemma deep_copy_id: "deep_copy t = t"
  by (induction t rule: deep_copy.induct) (simp_all add: map_idI)

lemma array_loop_eq:
  "array_loop faker JSON_parse tpl arrayCount i results st =
     (results @ map (\<lambda>k. fst (processValue faker JSON_parse (deep_copy tpl)
                              (walk_state faker JSON_parse tpl st k)))
                    [0..<nat (max 1 arrayCount - i)],
      walk_state faker JSON_parse tpl st (nat (max 1 arrayCount - i)))"
proof (induction faker JSON_parse tpl arrayCount i results st rule: array_loop.induct)
  case (1 faker JSON_parse tpl arrayCount i results st)
  show ?case
  proof (cases "i < max 1 arrayCount")
    case False
    then have "nat (max 1 arrayCount - i) = 0" by (auto simp: max_def)
    with False show ?thesis by (subst array_loop.simps) simp
  next
    case True
    obtain item st' where w: "processValue faker JSON_parse (deep_copy tpl) st = (item, st')"
      by (cases "processValue faker JSON_parse (deep_copy tpl) st")
    from True obtain m where m: "nat (max 1 arrayCount - i) = Suc m"
      by (cases "nat (max 1 arrayCount - i)") auto
    then have m': "nat (max 1 arrayCount - (i + 1)) = m" by linarith
    have up: "[0..<Suc m] = 0 # map Suc [0..<m]"
      by (simp add: upt_conv_Cons map_Suc_upt del: upt_Suc)
    have "array_loop faker JSON_parse tpl arrayCount i results st =
          array_loop faker JSON_parse tpl arrayCount (i + 1) (results @ [item]) st'"
      using True w by (subst array_loop.simps) simp
    also have "\<dots> = ((results @ [item]) @ map (\<lambda>k. fst (processValue faker JSON_parse (deep_copy tpl)
                              (walk_state faker JSON_parse tpl st' k))) [0..<m],
      walk_state faker JSON_parse tpl st' m)"
      using "1.IH" [OF True w [symmetric]] m' by simp
    finally show ?thesis
      unfolding m up using w by (simp add: comp_def)
  qed
qed

lemma processValue_string_nomatch:
  "template_match s = None \<Longrightarrow> processValue faker JSON_parse (JString s) st = (JString s, st)"
  by (simp add: processString_def)

lemma processValue_string_match:
  "template_match s = Some (p, g) \<Longrightarrow>
   processValue faker JSON_parse (JString s) st = processMatch faker JSON_parse p g st"
  by (simp add: processString_def)

lemma template_match_needs_braces: "\<not> startsWith s ''{{'' \<Longrightarrow> template_match s = None"
  by (simp add: template_match_def)

lemma marker_no_template:
  "template_match (''Error: Unknown Faker Path ('' @ p @ '')'') = None"
  "template_match (''Error: Faker ('' @ p @ '')'') = None"
  by (rule template_match_needs_braces, simp add: startsWith_def)+

lemma static_failure_cases:
  assumes "static_failure faker JSON_parse s = Some marker"
  obtains p g where "template_match s = Some (p, g)" "getFakerFunction faker p = None"
      "marker = ''Error: Unknown Faker Path ('' @ p @ '')''"
  | p a f e where "template_match s = Some (p, Some a)" "getFakerFunction faker p = Some f"
      "trim a \<noteq> []" "JSON_parse a = Inl e" "marker = ''Error: Faker ('' @ p @ '')''"
  using assms unfolding static_failure_def
  by (fastforce simp: isl_def split: option.splits if_splits)

lemma static_failure_processString:
  assumes "static_failure faker JSON_parse s = Some marker"
  shows "processString faker JSON_parse s st = (JString marker, st) \<and> template_match marker = None"
  using assms
proof (cases rule: static_failure_cases)
  case (1 p g)
  then show ?thesis
    using marker_no_template(1) [of p] by (simp add: processString_def processMatch_def)
next
  case (2 p a f e)
  then show ?thesis
    using marker_no_template(2) [of p] by (simp add: processString_def processMatch_def)
qed

lemma mark_failures_walk:
  "processValue faker JSON_parse (mark_failures faker JSON_parse t) st =
     processValue faker JSON_parse t st"
  "process_items faker JSON_parse (map (mark_failures faker JSON_parse) items) st =
     process_items faker JSON_parse items st"
  "process_keys faker JSON_parse
       (map (\<lambda>kv. (fst kv, mark_failures faker JSON_parse (snd kv))) entries) newObj st =
     process_keys faker JSON_parse entries newObj st"
proof (induction faker JSON_parse t st and faker JSON_parse items st
         and faker JSON_parse entries newObj st
       rule: processValue_process_items_process_keys.induct)
  case (1 faker JSON_parse v st)
  show ?case
  proof (cases "static_failure faker JSON_parse v")
    case None
    then show ?thesis by simp
  next
    case (Some marker)
    from static_failure_processString [OF Some, of st] show ?thesis
      using Some by (simp add: processString_def)
  qed
qed (auto split: prod.splits)

lemma process_items_append:
  "process_items faker JSON_parse (xs @ ys) st =
     (case process_items faker JSON_parse xs st of (xs', st1) \<Rightarrow>
        (case process_items faker JSON_parse ys st1 of (ys', st2) \<Rightarrow> (xs' @ ys', st2)))"
  by (induction xs arbitrary: st) (auto split: prod.splits)

lemma process_keys_append:
  "process_keys faker JSON_parse (xs @ ys) newObj st =
     (case process_keys faker JSON_parse xs newObj st of (obj1, st1) \<Rightarrow>
        process_keys faker JSON_parse ys obj1 st1)"
  by (induction xs arbitrary: newObj st) (auto split: prod.splits)

lemma update_fresh: "k \<notin> fst ` set al \<Longrightarrow> AList.update k v al = al @ [(k, v)]"
  by (induction al) auto

lemma identity_walk:
  "no_templates t \<Longrightarrow> plain_keys t \<Longrightarrow> processValue faker JSON_parse t st = (t, st)"
  "list_all no_templates items \<Longrightarrow> list_all plain_keys items \<Longrightarrow>
     process_items faker JSON_parse items st = (items, st)"
  "list_all (\<lambda>kv. no_templates (snd kv)) entries \<Longrightarrow>
   list_all (\<lambda>kv. plain_keys (snd kv)) entries \<Longrightarrow>
   distinct (map fst (newObj @ entries)) \<Longrightarrow> ''__proto__'' \<notin> set (map fst entries) \<Longrightarrow>
     process_keys faker JSON_parse entries newObj st = (newObj @ entries, st)"
proof (induction faker JSON_parse t st and faker JSON_parse items st
         and faker JSON_parse entries newObj st
       rule: processValue_process_items_process_keys.induct)
  case (10 faker JSON_parse key v rest newObj st)
  then show ?case
    by (auto simp: js_assign_def update_fresh)
qed (auto simp: processString_def)

lemma template_match_text:
  "well_formed p g \<Longrightarrow> template_match (template_text p g) = Some (p, g)"
  using template_match_plain [of p] template_match_args [of p]
  by (cases g) (simp_all add: well_formed_def template_text_def)

lemma template_match_textD:
  "template_match s = Some (p, g) \<Longrightarrow> well_formed p g \<and> s = template_text p g"
  using template_match_SomeD [of s p g]
  by (cases g) (simp_all add: well_formed_def template_text_def)

lemma lang_template_text:
  "s \<in> lang template_regex \<longleftrightarrow> (\<exists>p g. well_formed p g \<and> s = template_text p g)"
proof
  assume "s \<in> lang template_regex"
  then obtain p g where "template_match s = Some (p, g)"
    using template_match_iff [of s] by auto
  then show "\<exists>p g. well_formed p g \<and> s = template_text p g"
    using template_match_textD by blast
next
  assume "\<exists>p g. well_formed p g \<and> s = template_text p g"
  then show "s \<in> lang template_regex"
    using template_match_text template_match_iff by fastforce
qed

text \<open>
  Claim C3. A string leaf is treated as a generator-call template exactly when the whole
  string matches \<^verbatim>\<open>^{{([\w.]+)(?:\((.*)\))?}}$\<close>: a string of the language is one of
  the two template shapes and the walker answers with what the block under
  \<^verbatim>\<open>if (match)\<close> computes from its dotted path and argument text; any other string
  comes back unchanged, with the state of the random source untouched.
\<close>

theorem C3_template_iff_whole_string_match:
  "(s \<in> lang template_regex \<longrightarrow>
      (\<exists>p g. well_formed p g \<and> s = template_text p g \<and>
         processValue faker JSON_parse (JString s) st = processMatch faker JSON_parse p g st)) \<and>
   (s \<notin> lang template_regex \<longrightarrow>
      processValue faker JSON_parse (JString s) st = (JString s, st))"
proof (intro conjI impI)
  assume "s \<in> lang template_regex"
  then obtain p g where w: "well_formed p g" "s = template_text p g"
    unfolding lang_template_text by blast
  then have "template_match s = Some (p, g)" by (simp add: template_match_text)
  then have "processValue faker JSON_parse (JString s) st = processMatch faker JSON_parse p g st"
    by (rule processValue_string_match)
  with w show "\<exists>p g. well_formed p g \<and> s = template_text p g \<and>
         processValue faker JSON_parse (JString s) st = processMatch faker JSON_parse p g st"
    by blast
next
  assume "s \<notin> lang template_regex"
  then have "template_match s = None" using template_match_iff [of s] by blast
  then show "processValue faker JSON_parse (JString s) st = (JString s, st)"
    by (rule processValue_string_nomatch)
qed

lemmas char_class_defs = path_char_def word_char_def dot_char_def js_whitespace_def

lemma trailing_text_no_match: "template_match ''{{faker.string.uuid}} and more'' = None"
  by (simp add: template_match_def startsWith_def endsWith_def char_class_defs Let_def)

text \<open>
  A template followed by more text is not a template: it is passed through. The template
  alone is expanded.
\<close>

theorem C3_witness:
  "''{{faker.string.uuid}} and more'' \<notin> lang template_regex \<and>
   processValue example_faker example_parse (JString ''{{faker.string.uuid}} and more'') 0 =
     (JString ''{{faker.string.uuid}} and more'', 0) \<and>
   ''{{faker.string.uuid}}'' \<in> lang template_regex \<and>
   processValue example_faker example_parse (JString ''{{faker.string.uuid}}'') 0 =
     (JString ''3f2b8c1e-0d4a-4e6f-9a7b-5c1d2e3f4a5b'', 1)"
proof -
  let ?s = "''{{faker.string.uuid}}''"
  have n: "''{{faker.string.uuid}} and more'' \<notin> lang template_regex"
    using template_match_iff [of "''{{faker.string.uuid}} and more''"] trailing_text_no_match
    by blast
  have a: "processValue example_faker example_parse (JString ''{{faker.string.uuid}} and more'') 0 =
     (JString ''{{faker.string.uuid}} and more'', 0)"
    using C3_template_iff_whole_string_match
      [of "''{{faker.string.uuid}} and more''" example_faker example_parse 0] n
    by blast
  have m: "template_match ?s = Some (''faker.string.uuid'', None)"
    by (simp add: template_match_def startsWith_def endsWith_def char_class_defs Let_def)
  then have i: "?s \<in> lang template_regex"
    using template_match_iff [of ?s] by simp
  with C3_template_iff_whole_string_match [of ?s example_faker example_parse 0]
  obtain p g where w: "well_formed p g" "?s = template_text p g"
    and v: "processValue example_faker example_parse (JString ?s) 0 =
              processMatch example_faker example_parse p g 0"
    by blast
  from template_match_text [OF w(1)] w(2) m
  have pg: "p = ''faker.string.uuid''" "g = None" by simp_all
  have "processMatch example_faker example_parse ''faker.string.uuid'' None 0 =
          (JString ''3f2b8c1e-0d4a-4e6f-9a7b-5c1d2e3f4a5b'', 1)"
    by (simp add: processMatch_def getFakerFunction_def example_faker_def)
  with v pg have b: "processValue example_faker example_parse (JString ?s) 0 =
     (JString ''3f2b8c1e-0d4a-4e6f-9a7b-5c1d2e3f4a5b'', 1)"
    by simp
  from n a i b show ?thesis by (intro conjI)
qed

text \<open>
  Claim C10. A string leaf that matches the template grammar, but whose dotted path does
  not start with the segment \<^verbatim>\<open>faker\<close>, is not passed through: the walker replaces it
  by the marker of an unknown generator path, which contains the dotted path.
\<close>

theorem C10_non_faker_prefix_gives_marker:
  assumes "well_formed p g" and "hd (js_split CHR ''.'' p) \<noteq> ''faker''"
  shows "processValue faker JSON_parse (JString (template_text p g)) st =
           (JString (''Error: Unknown Faker Path ('' @ p @ '')''), st) \<and>
         JString (''Error: Unknown Faker Path ('' @ p @ '')'') \<noteq> JString (template_text p g)"
proof -
  have "getFakerFunction faker p = None"
    using assms(2) by (simp add: getFakerFunction_def)
  moreover have "template_match (template_text p g) = Some (p, g)"
    using assms(1) by (rule template_match_text)
  ultimately have "processValue faker JSON_parse (JString (template_text p g)) st =
           (JString (''Error: Unknown Faker Path ('' @ p @ '')''), st)"
    by (simp add: processString_def processMatch_def)
  moreover have "''Error: Unknown Faker Path ('' @ p @ '')'' \<noteq> template_text p g"
    by (simp add: template_text_def)
  ultimately show ?thesis by simp
qed

text \<open>The leaf \<^verbatim>\<open>{{name.first}}\<close>.\<close>

theorem C10_witness:
  "processValue example_faker example_parse (JString ''{{name.first}}'') 0 =
     (JString ''Error: Unknown Faker Path (name.first)'', 0)"
proof -
  have w: "well_formed ''name.first'' None"
    by (simp add: well_formed_def char_class_defs)
  have h: "hd (js_split CHR ''.'' ''name.first'') \<noteq> ''faker''"
    by simp
  from C10_non_faker_prefix_gives_marker [OF w h, of example_faker example_parse 0]
  show ?thesis by (simp add: template_text_def)
qed

text \<open>
  Claim C6. For a dotted path that resolves to a generator, the template without
  parentheses and the template with empty or blank parentheses both call the generator
  with no argument: the two leaves expand to the same result and leave the same state.
  Blank argument text is text that \<^verbatim>\<open>trim\<close> empties and that the grammar admits.
\<close>

theorem C6_argument_absence_equivalence:
  assumes "well_formed p (Some a)" and "trim a = []"
      and "getFakerFunction faker p = Some f"
  shows "processValue faker JSON_parse (JString (template_text p None)) st =
           (case f None st of
              (Inr result, st') \<Rightarrow> (result, st')
            | (Inl e, st') \<Rightarrow> (JString (''Error: Faker ('' @ p @ '')''), st')) \<and>
         processValue faker JSON_parse (JString (template_text p (Some a))) st =
           processValue faker JSON_parse (JString (template_text p None)) st"
proof -
  have w: "well_formed p None" using assms(1) by (simp add: well_formed_def)
  have m1: "template_match (template_text p None) = Some (p, None)"
    using w by (rule template_match_text)
  have m2: "template_match (template_text p (Some a)) = Some (p, Some a)"
    using assms(1) by (rule template_match_text)
  show ?thesis
    using assms(2,3) m1 m2 by (simp add: processString_def processMatch_def)
qed

text \<open>The three forms of \<^verbatim>\<open>faker.number.int\<close> from the same state.\<close>

theorem C6_witness:
  "processValue example_faker example_parse (JString ''{{faker.number.int}}'') 7 = (JNumber 7, 8) \<and>
   processValue example_faker example_parse (JString ''{{faker.number.int()}}'') 7 = (JNumber 7, 8) \<and>
   processValue example_faker example_parse (JString ''{{faker.number.int(  )}}'') 7 = (JNumber 7, 8)"
proof -
  let ?f = "\<lambda>args n. (Inr (JNumber (of_nat n)), Suc n) :: (JsError + JsonValue) \<times> nat"
  have g: "getFakerFunction example_faker ''faker.number.int'' = Some ?f"
    by (simp add: getFakerFunction_def example_faker_def)
  have w1: "well_formed ''faker.number.int'' (Some [])"
    by (simp add: well_formed_def char_class_defs)
  have w2: "well_formed ''faker.number.int'' (Some ''  '')"
    by (simp add: well_formed_def char_class_defs)
  have t1: "trim [] = []" and t2: "trim ''  '' = []"
    by (simp_all add: trim_def js_whitespace_def)
  from C6_argument_absence_equivalence [OF w1 t1 g, of example_parse 7]
       C6_argument_absence_equivalence [OF w2 t2 g, of example_parse 7]
  show ?thesis by (simp add: template_text_def)
qed

text \<open>
  Claim C2. In array mode the result is an array of exactly \<open>max 1 arrayCount\<close>
  elements; element \<open>i\<close> is the result of a walk of its own over a deep copy of the
  template, started in the state that the walk before it left, and the deep copy equals
  the template.
\<close>

theorem C2_array_mode_independent_walks:
  "generateMockData faker JSON_parse tpl True arrayCount st =
     (JArray (map (\<lambda>i. fst (processValue faker JSON_parse (deep_copy tpl)
                                (walk_state faker JSON_parse tpl st i)))
                  [0..<nat (max 1 arrayCount)]),
      walk_state faker JSON_parse tpl st (nat (max 1 arrayCount))) \<and>
   (\<exists>results. fst (generateMockData faker JSON_parse tpl True arrayCount st) = JArray results \<and>
      int (length results) = max 1 arrayCount) \<and>
   deep_copy tpl = tpl"
  by (simp add: generateMockData_def array_loop_eq deep_copy_id)

text \<open>
  Three walks over one template give three different elements; a count of zero gives one
  element.
\<close>

theorem C2_witness:
  "generateMockData example_faker example_parse
     (JObject [(''id'', JString ''{{faker.number.int}}'')]) True 3 0 =
     (JArray [JObject [(''id'', JNumber 0)], JObject [(''id'', JNumber 1)],
              JObject [(''id'', JNumber 2)]], 3) \<and>
   generateMockData example_faker example_parse
     (JObject [(''id'', JString ''{{faker.number.int}}'')]) True 0 5 =
     (JArray [JObject [(''id'', JNumber 5)]], 6)"
proof -
  let ?t = "JObject [(''id'', JString ''{{faker.number.int}}'')]"
  have m: "template_match ''{{faker.number.int}}'' = Some (''faker.number.int'', None)"
    by (simp add: template_match_def startsWith_def endsWith_def char_class_defs Let_def)
  have g: "getFakerFunction example_faker ''faker.number.int'' =
             Some (\<lambda>args n. (Inr (JNumber (of_nat n)), Suc n))"
    by (simp add: getFakerFunction_def example_faker_def)
  have w: "processValue example_faker example_parse ?t n = (JObject [(''id'', JNumber (of_nat n))], Suc n)" for n
    by (simp add: processString_def processMatch_def m g js_assign_def)
  have s: "walk_state example_faker example_parse ?t n k = n + k" for n k
    by (induction k arbitrary: n) (simp_all add: w del: processValue.simps)
  have u3: "[0..<3] = [0, 1, 2]" by (simp add: upt_rec)
  from C2_array_mode_independent_walks [of example_faker example_parse ?t 3 0]
       C2_array_mode_independent_walks [of example_faker example_parse ?t 0 5]
  show ?thesis
    by (simp add: w s u3 del: processValue.simps deep_copy.simps)
qed

text \<open>
  Claim C7. The template \<^verbatim>\<open>{"a": {"__proto__": 5, "n": 1}}\<close> has no generator-call
  string, and its expansion in non-array mode is \<^verbatim>\<open>{"a": {"n": 1}}\<close>: the key
  \<^verbatim>\<open>__proto__\<close> is lost, so the key set is not the one of the template.
\<close>

theorem C7_proto_key_dropped:
  "no_templates (JObject [(''a'', JObject [(''__proto__'', JNumber 5), (''n'', JNumber 1)])]) \<and>
   generateMockData faker JSON_parse
     (JObject [(''a'', JObject [(''__proto__'', JNumber 5), (''n'', JNumber 1)])]) False arrayCount st =
     (JObject [(''a'', JObject [(''n'', JNumber 1)])], st)"
  by (simp add: generateMockData_def js_assign_def)

text \<open>
  Without a key \<^verbatim>\<open>__proto__\<close> the expansion of a template that has no generator-call
  string is the template itself.
\<close>

lemma expand_identity_plain_keys:
  assumes "no_templates tpl" and "plain_keys tpl"
  shows "generateMockData faker JSON_parse tpl False arrayCount st = (tpl, st)"
  using assms by (simp add: generateMockData_def deep_copy_id identity_walk(1))

lemma processMatch_unknown:
  "getFakerFunction faker p = None \<Longrightarrow>
   processMatch faker JSON_parse p g st = (JString (''Error: Unknown Faker Path ('' @ p @ '')''), st)"
  by (simp add: processMatch_def)

lemma processMatch_parse_error:
  "getFakerFunction faker p = Some f \<Longrightarrow> trim a \<noteq> [] \<Longrightarrow> JSON_parse a = Inl e \<Longrightarrow>
   processMatch faker JSON_parse p (Some a) st = (JString (''Error: Faker ('' @ p @ '')''), st)"
  by (simp add: processMatch_def)

lemma processMatch_throws_with_args:
  "getFakerFunction faker p = Some f \<Longrightarrow> trim a \<noteq> [] \<Longrightarrow> JSON_parse a = Inr args \<Longrightarrow>
   f (Some args) st = (Inl e, st') \<Longrightarrow>
   processMatch faker JSON_parse p (Some a) st = (JString (''Error: Faker ('' @ p @ '')''), st')"
  by (simp add: processMatch_def)

lemma processMatch_throws_no_args:
  "getFakerFunction faker p = Some f \<Longrightarrow> g = None \<or> (\<exists>a. g = Some a \<and> trim a = []) \<Longrightarrow>
   f None st = (Inl e, st') \<Longrightarrow>
   processMatch faker JSON_parse p g st = (JString (''Error: Faker ('' @ p @ '')''), st')"
  by (cases g) (simp_all add: processMatch_def)

lemma process_items_around:
  "process_items faker JSON_parse (xs @ leaf # ys) st =
     (case process_items faker JSON_parse xs st of (xs', st1) \<Rightarrow>
        (case processValue faker JSON_parse leaf st1 of (leaf', st2) \<Rightarrow>
           (case process_items faker JSON_parse ys st2 of (ys', st3) \<Rightarrow>
              (xs' @ leaf' # ys', st3))))"
  by (simp add: process_items_append split: prod.splits)

lemma process_keys_around:
  "process_keys faker JSON_parse (xs @ (key, leaf) # ys) newObj st =
     (case process_keys faker JSON_parse xs newObj st of (obj1, st1) \<Rightarrow>
        (case processValue faker JSON_parse leaf st1 of (leaf', st2) \<Rightarrow>
           process_keys faker JSON_parse ys (js_assign obj1 key leaf') st2))"
  by (simp add: process_keys_append split: prod.splits)

text \<open>
  Claim C4. A leaf that is a template with dotted path \<open>p\<close> and that fails is replaced
  by a marker string containing \<open>p\<close>: the marker of an unknown path when \<open>p\<close> does
  not resolve; the marker of a failed call when the argument text is not JSON, or when the
  generator throws (called with the parsed argument, or with none). The walk is a total
  function: it answers with a value in every case. The rest of the structure is expanded
  as if nothing had failed: the walk over a template equals the walk over the template in
  which the leaves that fail before any generator runs are already their markers, and in
  an array or an object the elements before and after the leaf are expanded by their own
  walks whatever the leaf does.
\<close>

theorem C4_leaf_failures_recovered_locally:
  assumes "well_formed p g"
  shows
   "(getFakerFunction faker p = None \<longrightarrow>
       processValue faker JSON_parse (JString (template_text p g)) st =
         (JString (''Error: Unknown Faker Path ('' @ p @ '')''), st)) \<and>
    (\<forall>f a e. getFakerFunction faker p = Some f \<and> g = Some a \<and> trim a \<noteq> [] \<and>
         JSON_parse a = Inl e \<longrightarrow>
       processValue faker JSON_parse (JString (template_text p g)) st =
         (JString (''Error: Faker ('' @ p @ '')''), st)) \<and>
    (\<forall>f a args e st'. getFakerFunction faker p = Some f \<and> g = Some a \<and> trim a \<noteq> [] \<and>
         JSON_parse a = Inr args \<and> f (Some args) st = (Inl e, st') \<longrightarrow>
       processValue faker JSON_parse (JString (template_text p g)) st =
         (JString (''Error: Faker ('' @ p @ '')''), st')) \<and>
    (\<forall>f e st'. getFakerFunction faker p = Some f \<and>
         (g = None \<or> (\<exists>a. g = Some a \<and> trim a = [])) \<and> f None st = (Inl e, st') \<longrightarrow>
       processValue faker JSON_parse (JString (template_text p g)) st =
         (JString (''Error: Faker ('' @ p @ '')''), st')) \<and>
    processValue faker JSON_parse (mark_failures faker JSON_parse t) st =
      processValue faker JSON_parse t st \<and>
    process_items faker JSON_parse (xs @ JString (template_text p g) # ys) st =
      (case process_items faker JSON_parse xs st of (xs', st1) \<Rightarrow>
         (case processValue faker JSON_parse (JString (template_text p g)) st1 of (leaf', st2) \<Rightarrow>
            (case process_items faker JSON_parse ys st2 of (ys', st3) \<Rightarrow>
               (xs' @ leaf' # ys', st3)))) \<and>
    process_keys faker JSON_parse (kxs @ (key, JString (template_text p g)) # kys) newObj st =
      (case process_keys faker JSON_parse kxs newObj st of (obj1, st1) \<Rightarrow>
         (case processValue faker JSON_parse (JString (template_text p g)) st1 of (leaf', st2) \<Rightarrow>
            process_keys faker JSON_parse kys (js_assign obj1 key leaf') st2))"
proof -
  have m: "processValue faker JSON_parse (JString (template_text p g)) s =
             processMatch faker JSON_parse p g s" for s
    using template_match_text [OF assms] by (rule processValue_string_match)
  have a: "getFakerFunction faker p = None \<longrightarrow>
       processValue faker JSON_parse (JString (template_text p g)) st =
         (JString (''Error: Unknown Faker Path ('' @ p @ '')''), st)"
    unfolding m by (simp add: processMatch_unknown)
  have b: "\<forall>f a e. getFakerFunction faker p = Some f \<and> g = Some a \<and> trim a \<noteq> [] \<and>
         JSON_parse a = Inl e \<longrightarrow>
       processValue faker JSON_parse (JString (template_text p g)) st =
         (JString (''Error: Faker ('' @ p @ '')''), st)"
  proof (intro allI impI, elim conjE)
    fix f a e
    assume "getFakerFunction faker p = Some f" "g = Some a" "trim a \<noteq> []" "JSON_parse a = Inl e"
    then show "processValue faker JSON_parse (JString (template_text p g)) st =
         (JString (''Error: Faker ('' @ p @ '')''), st)"
      unfolding m by (simp add: processMatch_parse_error)
  qed
  have c: "\<forall>f a args e st'. getFakerFunction faker p = Some f \<and> g = Some a \<and> trim a \<noteq> [] \<and>
         JSON_parse a = Inr args \<and> f (Some args) st = (Inl e, st') \<longrightarrow>
       processValue faker JSON_parse (JString (template_text p g)) st =
         (JString (''Error: Faker ('' @ p @ '')''), st')"
  proof (intro allI impI, elim conjE)
    fix f a args e st'
    assume "getFakerFunction faker p = Some f" "g = Some a" "trim a \<noteq> []"
      "JSON_parse a = Inr args" "f (Some args) st = (Inl e, st')"
    then show "processValue faker JSON_parse (JString (template_text p g)) st =
         (JString (''Error: Faker ('' @ p @ '')''), st')"
      unfolding m by (simp add: processMatch_throws_with_args)
  qed
  have d: "\<forall>f e st'. getFakerFunction faker p = Some f \<and>
         (g = None \<or> (\<exists>a. g = Some a \<and> trim a = [])) \<and> f None st = (Inl e, st') \<longrightarrow>
       processValue faker JSON_parse (JString (template_text p g)) st =
         (JString (''Error: Faker ('' @ p @ '')''), st')"
  proof (intro allI impI, elim conjE)
    fix f e st'
    assume "getFakerFunction faker p = Some f" "g = None \<or> (\<exists>a. g = Some a \<and> trim a = [])"
      "f None st = (Inl e, st')"
    then show "processValue faker JSON_parse (JString (template_text p g)) st =
         (JString (''Error: Faker ('' @ p @ '')''), st')"
      unfolding m by (rule processMatch_throws_no_args)
  qed
  note e = mark_failures_walk(1) [of faker JSON_parse t st]
  note f = process_items_around [of faker JSON_parse xs "JString (template_text p g)" ys st]
  note h = process_keys_around [of faker JSON_parse kxs key "JString (template_text p g)" kys newObj st]
  show ?thesis
    by (intro conjI) (rule a b c d e f h)+
qed

text \<open>
  An object with an unknown path, argument text that is not JSON, a generator that throws
  without and with an argument, and a generator that succeeds.
\<close>

theorem C4_witness:
  "processValue example_faker example_parse
     (JObject [(''a'', JString ''{{faker.nope}}''),
               (''b'', JString ''{{faker.number.int({oops)}}''),
               (''c'', JString ''{{faker.helpers.fake}}''),
               (''d'', JString ''{{faker.helpers.fake({})}}''),
               (''e'', JString ''{{faker.number.int}}'')]) 0 =
     (JObject [(''a'', JString ''Error: Unknown Faker Path (faker.nope)''),
               (''b'', JString ''Error: Faker (faker.number.int)''),
               (''c'', JString ''Error: Faker (faker.helpers.fake)''),
               (''d'', JString ''Error: Faker (faker.helpers.fake)''),
               (''e'', JNumber 2)], 3)"
proof -
  let ?int = "\<lambda>args n. (Inr (JNumber (of_nat n)), Suc n) :: (JsError + JsonValue) \<times> nat"
  let ?fake = "\<lambda>args n. (Inl (JsError ''fake: no pattern''), Suc n) :: (JsError + JsonValue) \<times> nat"
  have w1: "well_formed ''faker.nope'' None"
    and w2: "well_formed ''faker.number.int'' (Some ''{oops'')"
    and w3: "well_formed ''faker.helpers.fake'' None"
    and w4: "well_formed ''faker.helpers.fake'' (Some ''{}'')"
    by (simp_all add: well_formed_def char_class_defs)
  have g1: "getFakerFunction example_faker ''faker.nope'' = None"
    and g2: "getFakerFunction example_faker ''faker.number.int'' = Some ?int"
    and g3: "getFakerFunction example_faker ''faker.helpers.fake'' = Some ?fake"
    by (simp_all add: getFakerFunction_def example_faker_def)
  have t: "trim ''{oops'' \<noteq> []" and t': "trim ''{}'' \<noteq> []"
    by (simp_all add: trim_def js_whitespace_def)
  have e: "example_parse ''{oops'' = Inl (JsError ''Unexpected token in JSON'')"
    and e': "example_parse ''{}'' = Inr (JObject [])"
    by (simp_all add: example_parse_def)
  have a: "processValue example_faker example_parse (JString ''{{faker.nope}}'') 0 =
             (JString ''Error: Unknown Faker Path (faker.nope)'', 0)"
    using C4_leaf_failures_recovered_locally [OF w1, of example_faker example_parse 0, THEN conjunct1] g1
    by (simp add: template_text_def)
  have b: "processValue example_faker example_parse (JString ''{{faker.number.int({oops)}}'') 0 =
             (JString ''Error: Faker (faker.number.int)'', 0)"
    using C4_leaf_failures_recovered_locally [OF w2, of example_faker example_parse 0,
        THEN conjunct2, THEN conjunct1, rule_format, of ?int "''{oops''"] g2 t e
    by (simp add: template_text_def)
  have c: "processValue example_faker example_parse (JString ''{{faker.helpers.fake}}'') 0 =
             (JString ''Error: Faker (faker.helpers.fake)'', 1)"
    using C4_leaf_failures_recovered_locally [OF w3, of example_faker example_parse 0,
        THEN conjunct2, THEN conjunct2, THEN conjunct2, THEN conjunct1, rule_format, of ?fake _ 1] g3
    by (simp add: template_text_def)
  have d: "processValue example_faker example_parse (JString ''{{faker.helpers.fake({})}}'') 1 =
             (JString ''Error: Faker (faker.helpers.fake)'', 2)"
    using C4_leaf_failures_recovered_locally [OF w4, of example_faker example_parse 1,
        THEN conjunct2, THEN conjunct2, THEN conjunct1, rule_format,
        of ?fake "''{}''" "JObject []" _ 2] g3 t' e'
    by (simp add: template_text_def)
  have f: "processValue example_faker example_parse (JString ''{{faker.number.int}}'') 2 =
             (JNumber 2, 3)"
    using g2 by (simp add: processString_def processMatch_def template_match_def startsWith_def
        endsWith_def char_class_defs Let_def)
  show ?thesis
    using a b c d f by (simp add: js_assign_def del: processValue.simps(1))
qed

section \<open>Properties of the matcher and the request handler\<close>

lemma match_loop_hit:
  "match_fn (fullPathTemplate mock) (normalizedReqPath parts) = Inr (Some captured) \<Longrightarrow>
   match_loop match_fn parts (mock # rest) = Inr (Some mock)"
  by simp

lemma match_loop_skip:
  "match_fn (fullPathTemplate mock) (normalizedReqPath parts) = Inr None \<Longrightarrow>
   match_loop match_fn parts (mock # rest) = match_loop match_fn parts rest"
  by simp

lemma match_loop_throw:
  "match_fn (fullPathTemplate mock) (normalizedReqPath parts) = Inl e \<Longrightarrow>
   match_loop match_fn parts (mock # rest) = Inl e"
  by simp

lemma match_loop_prefix:
  "\<forall>c\<in>set pre. match_fn (fullPathTemplate c) (normalizedReqPath parts) = Inr None \<Longrightarrow>
   match_loop match_fn parts (pre @ rest) = match_loop match_fn parts rest"
  by (induction pre) simp_all

lemma match_loop_SomeD:
  "match_loop match_fn parts rows = Inr (Some m) \<Longrightarrow>
   \<exists>pre post captured. rows = pre @ m # post \<and>
     (\<forall>c\<in>set pre. match_fn (fullPathTemplate c) (normalizedReqPath parts) = Inr None) \<and>
     match_fn (fullPathTemplate m) (normalizedReqPath parts) = Inr (Some captured)"
proof (induction rows)
  case Nil
  then show ?case by simp
next
  case (Cons r rows)
  show ?case
  proof (cases "match_fn (fullPathTemplate r) (normalizedReqPath parts)")
    case (Inl e)
    with Cons.prems show ?thesis by simp
  next
    case (Inr res)
    show ?thesis
    proof (cases res)
      case None
      with Inr Cons.prems have "match_loop match_fn parts rows = Inr (Some m)" by simp
      from Cons.IH [OF this] obtain pre post captured where
        s: "rows = pre @ m # post"
        "\<forall>c\<in>set pre. match_fn (fullPathTemplate c) (normalizedReqPath parts) = Inr None"
        "match_fn (fullPathTemplate m) (normalizedReqPath parts) = Inr (Some captured)"
        by blast
      have "r # rows = (r # pre) @ m # post" using s(1) by simp
      moreover have "\<forall>c\<in>set (r # pre). match_fn (fullPathTemplate c) (normalizedReqPath parts) = Inr None"
        using s(2) Inr None by simp
      ultimately show ?thesis using s(3) by blast
    next
      case (Some captured)
      with Inr Cons.prems have "m = r" by simp
      then have "r # rows = [] @ m # rows" by simp
      moreover have "\<forall>c\<in>set []. match_fn (fullPathTemplate c) (normalizedReqPath parts) = Inr None"
        by simp
      ultimately show ?thesis using Inr Some \<open>m = r\<close> by blast
    qed
  qed
qed

lemma match_loop_iff:
  "match_loop match_fn parts rows = Inr (Some m) \<longleftrightarrow>
   (\<exists>pre post captured. rows = pre @ m # post \<and>
     (\<forall>c\<in>set pre. match_fn (fullPathTemplate c) (normalizedReqPath parts) = Inr None) \<and>
     match_fn (fullPathTemplate m) (normalizedReqPath parts) = Inr (Some captured))"
proof
  assume "match_loop match_fn parts rows = Inr (Some m)"
  then show "\<exists>pre post captured. rows = pre @ m # post \<and>
     (\<forall>c\<in>set pre. match_fn (fullPathTemplate c) (normalizedReqPath parts) = Inr None) \<and>
     match_fn (fullPathTemplate m) (normalizedReqPath parts) = Inr (Some captured)"
    by (rule match_loop_SomeD)
next
  assume "\<exists>pre post captured. rows = pre @ m # post \<and>
     (\<forall>c\<in>set pre. match_fn (fullPathTemplate c) (normalizedReqPath parts) = Inr None) \<and>
     match_fn (fullPathTemplate m) (normalizedReqPath parts) = Inr (Some captured)"
  then obtain pre post captured where
    s: "rows = pre @ m # post"
    "\<forall>c\<in>set pre. match_fn (fullPathTemplate c) (normalizedReqPath parts) = Inr None"
    "match_fn (fullPathTemplate m) (normalizedReqPath parts) = Inr (Some captured)"
    by blast
  show "match_loop match_fn parts rows = Inr (Some m)"
    unfolding s(1)
    using match_loop_prefix [of pre match_fn parts "m # post"] s(2)
      match_loop_hit [of match_fn m parts captured post] s(3) by simp
qed

lemma findMatchingMock_rows:
  assumes "profiles_single db prefix = \<lparr>data = Some uid, error = None\<rparr>"
      and "mock_endpoints_select db uid (toUpperCase method) = \<lparr>data = Some rows, error = None\<rparr>"
  shows "findMatchingMock db match_fn prefix method parts = match_loop match_fn parts rows"
  using assms by (simp add: findMatchingMock_def)

lemma items_active_request: "normalizedReqPath [''items'', ''active''] = ''/items/active''"
  by (simp add: normalizedReqPath_def endsWith_def slice_0_m1_def)

lemma items_id_captures_active:
  "structural_match ''/items/:id'' ''/items/active'' = Inr (Some [(''id'', ''active'')])"
  by (simp add: structural_match_def startsWith_def)

text \<open>
  Claim C1. When the store answers with the tenant and with the rows \<open>rows\<close> of the
  tenant for the method, \<^verbatim>\<open>findMatchingMock\<close> returns the row \<open>m\<close> exactly when \<open>m\<close>
  is the first row, in the order of the store, whose full path template matches the
  normalized request path: every row before it answered no match, and the rows after it
  play no part. With \<^verbatim>\<open>/items/:id\<close> before \<^verbatim>\<open>/items/active\<close>, the request
  \<^verbatim>\<open>/items/active\<close> resolves to \<^verbatim>\<open>/items/:id\<close>, whose match captures \<^verbatim>\<open>id\<close> as
  \<^verbatim>\<open>active\<close>.
\<close>

theorem C1_first_match_wins:
  assumes "profiles_single db prefix = \<lparr>data = Some uid, error = None\<rparr>"
      and "mock_endpoints_select db uid (toUpperCase method) = \<lparr>data = Some rows, error = None\<rparr>"
  shows "(findMatchingMock db match_fn prefix method parts = Inr (Some m) \<longleftrightarrow>
           (\<exists>pre post captured. rows = pre @ m # post \<and>
              (\<forall>c\<in>set pre. match_fn (fullPathTemplate c) (normalizedReqPath parts) = Inr None) \<and>
              match_fn (fullPathTemplate m) (normalizedReqPath parts) = Inr (Some captured))) \<and>
         (\<forall>c1 c2 rest. rows = c1 # c2 # rest \<and> fullPathTemplate c1 = ''/items/:id'' \<and>
              fullPathTemplate c2 = ''/items/active'' \<longrightarrow>
            findMatchingMock db structural_match prefix method [''items'', ''active''] = Inr (Some c1) \<and>
            structural_match (fullPathTemplate c1) (normalizedReqPath [''items'', ''active'']) =
              Inr (Some [(''id'', ''active'')]))"
proof (intro conjI allI impI)
  show "findMatchingMock db match_fn prefix method parts = Inr (Some m) \<longleftrightarrow>
           (\<exists>pre post captured. rows = pre @ m # post \<and>
              (\<forall>c\<in>set pre. match_fn (fullPathTemplate c) (normalizedReqPath parts) = Inr None) \<and>
              match_fn (fullPathTemplate m) (normalizedReqPath parts) = Inr (Some captured))"
    unfolding findMatchingMock_rows [OF assms] by (rule match_loop_iff)
next
  fix c1 c2 rest
  assume a: "rows = c1 # c2 # rest \<and> fullPathTemplate c1 = ''/items/:id'' \<and>
              fullPathTemplate c2 = ''/items/active''"
  then have c: "structural_match (fullPathTemplate c1) (normalizedReqPath [''items'', ''active'']) =
              Inr (Some [(''id'', ''active'')])"
    by (simp only: items_active_request items_id_captures_active)
  then show "structural_match (fullPathTemplate c1) (normalizedReqPath [''items'', ''active'']) =
              Inr (Some [(''id'', ''active'')])" .
  show "findMatchingMock db structural_match prefix method [''items'', ''active''] = Inr (Some c1)"
    unfolding findMatchingMock_rows [OF assms]
    using a c match_loop_hit [of structural_match c1 "[''items'', ''active'']" "[(''id'', ''active'')]" "c2 # rest"]
    by simp
qed

lemma example_full: "fullPathTemplate (example_row ident pattern) =
    (let n = (if startsWith pattern ''/'' then pattern else ''/'' @ pattern)
     in if length n > 1 \<and> endsWith n ''/'' then slice_0_m1 n else n)"
  by (simp add: fullPathTemplate_def example_row_def)

text \<open>
  The two rows in a store, asked with the method in lower case; the second row would
  match as well, and wins when the store answers with it first.
\<close>

theorem C1_witness:
  "findMatchingMock
     (example_store [example_row ''1'' ''/items/:id'', example_row ''2'' ''/items/active''])
     structural_match ''acme'' ''get'' [''items'', ''active''] =
     Inr (Some (example_row ''1'' ''/items/:id'')) \<and>
   structural_match ''/items/:id'' ''/items/active'' = Inr (Some [(''id'', ''active'')]) \<and>
   structural_match ''/items/active'' ''/items/active'' = Inr (Some []) \<and>
   findMatchingMock
     (example_store [example_row ''2'' ''/items/active'', example_row ''1'' ''/items/:id''])
     structural_match ''acme'' ''get'' [''items'', ''active''] =
     Inr (Some (example_row ''2'' ''/items/active''))"
proof -
  let ?r1 = "example_row ''1'' ''/items/:id''"
  let ?r2 = "example_row ''2'' ''/items/active''"
  have u: "toUpperCase ''get'' = ''GET''"
    by code_simp
  have p: "profiles_single (example_store rows) ''acme'' = \<lparr>data = Some ''u1'', error = None\<rparr>" for rows
    by (simp add: example_store_def)
  have q: "mock_endpoints_select (example_store [?r1, ?r2]) ''u1'' (toUpperCase ''get'') =
             \<lparr>data = Some [?r1, ?r2], error = None\<rparr>"
    unfolding u by (simp add: example_store_def example_row_def)
  have q': "mock_endpoints_select (example_store [?r2, ?r1]) ''u1'' (toUpperCase ''get'') =
             \<lparr>data = Some [?r2, ?r1], error = None\<rparr>"
    unfolding u by (simp add: example_store_def example_row_def)
  have f1: "fullPathTemplate ?r1 = ''/items/:id''"
    and f2: "fullPathTemplate ?r2 = ''/items/active''"
    by (simp_all add: example_full startsWith_def endsWith_def)
  have l: "structural_match ''/items/active'' ''/items/active'' = Inr (Some [])"
    by (simp add: structural_match_def startsWith_def)
  have a: "findMatchingMock (example_store [?r1, ?r2]) structural_match ''acme'' ''get''
             [''items'', ''active''] = Inr (Some ?r1)"
    using C1_first_match_wins [OF p q, THEN conjunct2, rule_format, of ?r1 ?r2 "[]"] f1 f2
    by simp
  have "[?r2, ?r1] = [] @ ?r2 # [?r1] \<and>
        (\<forall>c\<in>set []. structural_match (fullPathTemplate c) (normalizedReqPath [''items'', ''active'']) = Inr None) \<and>
        structural_match (fullPathTemplate ?r2) (normalizedReqPath [''items'', ''active'']) = Inr (Some [])"
    by (simp add: f2 items_active_request l)
  then have "\<exists>pre post captured. [?r2, ?r1] = pre @ ?r2 # post \<and>
        (\<forall>c\<in>set pre. structural_match (fullPathTemplate c) (normalizedReqPath [''items'', ''active'']) = Inr None) \<and>
        structural_match (fullPathTemplate ?r2) (normalizedReqPath [''items'', ''active'']) = Inr (Some captured)"
    by blast
  then have b: "findMatchingMock (example_store [?r2, ?r1]) structural_match ''acme'' ''get''
             [''items'', ''active''] = Inr (Some ?r2)"
    using C1_first_match_wins [OF p q', THEN conjunct1, of structural_match "[''items'', ''active'']" ?r2]
    by (simp only:)
  from a items_id_captures_active l b show ?thesis by (intro conjI)
qed

lemma lead_slash: "startsWith (if startsWith p ''/'' then p else ''/'' @ p) ''/''"
  by (simp add: startsWith_def)

lemma clean_eq_normalize:
  "(let n = (if startsWith p ''/'' then p else ''/'' @ p)
    in if length n > 1 \<and> endsWith n ''/'' then slice_0_m1 n else n) = normalize_path p"
proof -
  define n where "n = (if startsWith p ''/'' then p else ''/'' @ p)"
  have "startsWith n ''/''" unfolding n_def by (rule lead_slash)
  then obtain r where r: "n = CHR ''/'' # r"
    by (cases n) (simp_all add: startsWith_def)
  have "(length n > 1) = (n \<noteq> ''/'')" unfolding r by (cases r) simp_all
  then show ?thesis
    unfolding normalize_path_def slice_0_m1_def n_def [symmetric] Let_def by simp
qed

lemma fullPathTemplate_compose:
  "fullPathTemplate mock =
     compose (case projects mock of
                Some (Some g) \<Rightarrow> if g = [] then None else Some g
              | _ \<Rightarrow> None)
       (path_template mock)"
proof -
  note n = clean_eq_normalize [unfolded Let_def]
  show ?thesis
    unfolding fullPathTemplate_def compose_def Let_def n
    by (simp split: option.splits)
qed

lemma normalize_path_leading: "startsWith (normalize_path p) ''/''"
proof -
  define n where "n = (if startsWith p ''/'' then p else ''/'' @ p)"
  have "startsWith n ''/''" unfolding n_def by (rule lead_slash)
  then obtain r where r: "n = CHR ''/'' # r"
    by (cases n) (simp_all add: startsWith_def)
  show ?thesis
    unfolding normalize_path_def n_def [symmetric] Let_def r
    by (cases r) (simp_all add: startsWith_def)
qed

lemma normalize_path_strips: "x \<noteq> [] \<Longrightarrow> normalize_path (''/'' @ x @ ''/'') = ''/'' @ x"
  by (simp add: normalize_path_def startsWith_def endsWith_def butlast_append)

text \<open>
  Claim C5. The full path template that \<^verbatim>\<open>findMatchingMock\<close> builds for a row is
  \<open>compose\<close> of its group base path and its path pattern, where an empty base path
  counts as absent: both inputs get a leading \<^verbatim>\<open>/\<close> when they lack one and lose a
  trailing \<^verbatim>\<open>/\<close> unless they are exactly \<^verbatim>\<open>/\<close>, and a pattern that normalizes to
  \<^verbatim>\<open>/\<close> leaves the normalized base path alone. The three values of the claim hold on
  the code.
\<close>

theorem C5_path_composition:
  "fullPathTemplate mock =
     compose (case projects mock of
                Some (Some g) \<Rightarrow> if g = [] then None else Some g
              | _ \<Rightarrow> None)
       (path_template mock) \<and>
   startsWith (normalize_path p) ''/'' \<and>
   (x \<noteq> [] \<longrightarrow> normalize_path (''/'' @ x @ ''/'') = ''/'' @ x) \<and>
   normalize_path ''/'' = ''/'' \<and>
   fullPathTemplate (mock\<lparr>projects := Some (Some ''/shop''), path_template := ''/''\<rparr>) = ''/shop'' \<and>
   fullPathTemplate (mock\<lparr>projects := Some (Some ''/shop''), path_template := ''/items/:id''\<rparr>) =
     ''/shop/items/:id'' \<and>
   fullPathTemplate (mock\<lparr>projects := None, path_template := ''/items/''\<rparr>) = ''/items'' \<and>
   fullPathTemplate (mock\<lparr>projects := Some None, path_template := ''/items/''\<rparr>) = ''/items''"
proof -
  have e1: "fullPathTemplate (mock\<lparr>projects := Some (Some ''/shop''), path_template := ''/''\<rparr>) = ''/shop''"
    by (simp add: fullPathTemplate_def startsWith_def endsWith_def slice_0_m1_def)
  have e2: "fullPathTemplate (mock\<lparr>projects := Some (Some ''/shop''), path_template := ''/items/:id''\<rparr>) =
     ''/shop/items/:id''"
    by (simp add: fullPathTemplate_def startsWith_def endsWith_def slice_0_m1_def)
  have e3: "fullPathTemplate (mock\<lparr>projects := None, path_template := ''/items/''\<rparr>) = ''/items''"
    by (simp add: fullPathTemplate_def startsWith_def endsWith_def slice_0_m1_def)
  have e4: "fullPathTemplate (mock\<lparr>projects := Some None, path_template := ''/items/''\<rparr>) = ''/items''"
    by (simp add: fullPathTemplate_def startsWith_def endsWith_def slice_0_m1_def)
  have r: "normalize_path ''/'' = ''/''"
    by (simp add: normalize_path_def startsWith_def endsWith_def)
  show ?thesis
    by (intro conjI impI) (rule fullPathTemplate_compose normalize_path_leading normalize_path_strips r e1 e2 e3 e4, assumption?)+
qed

text \<open>A base path and a pattern that both lack the leading and carry a trailing slash.\<close>

theorem C5_witness:
  "fullPathTemplate ((example_row ''1'' ''items/'')\<lparr>projects := Some (Some ''shop/'')\<rparr>) = ''/shop/items'' \<and>
   compose (Some ''shop/'') ''items/'' = ''/shop/items'' \<and>
   compose (Some ''/shop'') ''/'' = ''/shop'' \<and>
   compose (Some ''/shop'') ''/items/:id'' = ''/shop/items/:id'' \<and>
   compose None ''/items/'' = ''/items'' \<and>
   normalize_path ''/items/'' = ''/items''"
proof -
  let ?m = "(example_row ''1'' ''items/'')\<lparr>projects := Some (Some ''shop/'')\<rparr>"
  have c: "compose (Some ''shop/'') ''items/'' = ''/shop/items''"
    "compose (Some ''/shop'') ''/'' = ''/shop''"
    "compose (Some ''/shop'') ''/items/:id'' = ''/shop/items/:id''"
    "compose None ''/items/'' = ''/items''"
    by (simp_all add: compose_def normalize_path_def startsWith_def endsWith_def)
  have x: "''items'' \<noteq> []" by simp
  from C5_path_composition [of ?m _ "''items''", THEN conjunct1]
       C5_path_composition [of ?m _ "''items''", THEN conjunct2, THEN conjunct2, THEN conjunct1] c x
  show ?thesis by (simp add: example_row_def)
qed

lemma match_loop_forget:
  assumes "\<forall>pattern path. map_sum id (map_option (\<lambda>captured. ())) (M' pattern path) =
             map_sum id (map_option (\<lambda>captured. ())) (M pattern path)"
  shows "match_loop M' parts rows = match_loop M parts rows"
proof (induction rows)
  case Nil
  show ?case by simp
next
  case (Cons r rows)
  have "map_sum id (map_option (\<lambda>captured. ())) (M' (fullPathTemplate r) (normalizedReqPath parts)) =
        map_sum id (map_option (\<lambda>captured. ())) (M (fullPathTemplate r) (normalizedReqPath parts))"
    using assms by blast
  then show ?case using Cons.IH
    by (cases "M (fullPathTemplate r) (normalizedReqPath parts)";
        cases "M' (fullPathTemplate r) (normalizedReqPath parts)")
       (auto split: option.splits)
qed

lemma findMatchingMock_forget:
  assumes "\<forall>pattern path. map_sum id (map_option (\<lambda>captured. ())) (M' pattern path) =
             map_sum id (map_option (\<lambda>captured. ())) (M pattern path)"
  shows "findMatchingMock db M' prefix method parts = findMatchingMock db M prefix method parts"
  unfolding findMatchingMock_def Let_def match_loop_forget [OF assms] ..

lemma match_loop_None_D:
  "match_loop M parts rows = Inr None \<Longrightarrow>
   \<forall>c\<in>set rows. M (fullPathTemplate c) (normalizedReqPath parts) = Inr None"
proof (induction rows)
  case Nil
  show ?case by simp
next
  case (Cons r rows)
  then show ?case
    by (cases "M (fullPathTemplate r) (normalizedReqPath parts)") (auto split: option.splits)
qed

lemma findMatchingMock_first:
  assumes "profiles_single db prefix = \<lparr>data = Some uid, error = None\<rparr>"
      and "mock_endpoints_select db uid (toUpperCase method) =
             \<lparr>data = Some (pre @ m # post), error = None\<rparr>"
      and "\<forall>c\<in>set pre. M (fullPathTemplate c) (normalizedReqPath parts) = Inr None"
      and "M (fullPathTemplate m) (normalizedReqPath parts) = Inr (Some captured)"
  shows "findMatchingMock db M prefix method parts = Inr (Some m)"
  unfolding findMatchingMock_rows [OF assms(1,2)]
  using match_loop_prefix [of pre M parts "m # post"] assms(3)
    match_loop_hit [of M m parts captured post] assms(4)
  by simp

text \<open>
  Claim C8, amended. When the request path matches a candidate pattern and no candidate
  before the first match throws in the pattern matcher, the result of
  \<^verbatim>\<open>findMatchingMock\<close> is that first matching endpoint definition, a row of the store,
  and nothing else: the captured parameter values are not part of it, and the result is
  the same whatever values the pattern match captures. When some candidate matches, the
  result is never no match.
\<close>

theorem C8_result_is_the_definition_alone:
  assumes "profiles_single db prefix = \<lparr>data = Some uid, error = None\<rparr>"
      and "mock_endpoints_select db uid (toUpperCase method) = \<lparr>data = Some rows, error = None\<rparr>"
  shows "(\<forall>pre m post captured.
            rows = pre @ m # post \<and>
            (\<forall>c\<in>set pre. M (fullPathTemplate c) (normalizedReqPath parts) = Inr None) \<and>
            M (fullPathTemplate m) (normalizedReqPath parts) = Inr (Some captured) \<longrightarrow>
              findMatchingMock db M prefix method parts = Inr (Some m) \<and>
              (\<forall>M' :: matcher. (\<forall>pattern path.
                        map_sum id (map_option (\<lambda>captured. ())) (M' pattern path) =
                        map_sum id (map_option (\<lambda>captured. ())) (M pattern path)) \<longrightarrow>
                    findMatchingMock db M' prefix method parts = Inr (Some m))) \<and>
         ((\<exists>c\<in>set rows. \<exists>captured.
              M (fullPathTemplate c) (normalizedReqPath parts) = Inr (Some captured)) \<longrightarrow>
            findMatchingMock db M prefix method parts \<noteq> Inr None)"
proof (intro conjI allI impI; (elim conjE)?)
  fix pre m post captured
  assume r: "rows = pre @ m # post"
    and n: "\<forall>c\<in>set pre. M (fullPathTemplate c) (normalizedReqPath parts) = Inr None"
    and h: "M (fullPathTemplate m) (normalizedReqPath parts) = Inr (Some captured)"
  show f: "findMatchingMock db M prefix method parts = Inr (Some m)"
    using assms(1) assms(2) [unfolded r] n h by (rule findMatchingMock_first)
  fix M' :: matcher
  assume "\<forall>pattern path. map_sum id (map_option (\<lambda>captured. ())) (M' pattern path) =
                        map_sum id (map_option (\<lambda>captured. ())) (M pattern path)"
  then have "findMatchingMock db M' prefix method parts = findMatchingMock db M prefix method parts"
    by (rule findMatchingMock_forget)
  with f show "findMatchingMock db M' prefix method parts = Inr (Some m)" by simp
next
  assume e: "\<exists>c\<in>set rows. \<exists>captured.
              M (fullPathTemplate c) (normalizedReqPath parts) = Inr (Some captured)"
  show "findMatchingMock db M prefix method parts \<noteq> Inr None"
  proof
    assume "findMatchingMock db M prefix method parts = Inr None"
    then have "match_loop M parts rows = Inr None"
      unfolding findMatchingMock_rows [OF assms] .
    from match_loop_None_D [OF this] e show False by auto
  qed
qed

lemma forgetful_same_outcome:
  "\<forall>pattern path. map_sum id (map_option (\<lambda>captured. ())) (forgetful_match pattern path) =
     map_sum id (map_option (\<lambda>captured. ())) (structural_match pattern path)"
  by (simp add: forgetful_match_def structural_match_def split: option.splits)

lemma example_lookup:
  "findMatchingMock (example_store rows) M ''acme'' ''GET'' parts =
     match_loop M parts (filter (\<lambda>m. user_id m = ''u1'' \<and> http_method m = ''GET'') rows)"
proof -
  have u: "toUpperCase ''GET'' = ''GET''" by code_simp
  show ?thesis
    unfolding findMatchingMock_def Let_def u by (simp add: example_store_def)
qed

text \<open>
  A store with \<^verbatim>\<open>/users/:id\<close> before \<^verbatim>\<open>/items/:id\<close> and the request
  \<^verbatim>\<open>/items/42\<close>: the second row is the result, with the structural matcher and with
  the matcher that forgets its captures.
\<close>

theorem C8_witness:
  "findMatchingMock (example_store [example_row ''1'' ''/users/:id'', example_row ''2'' ''/items/:id''])
     structural_match ''acme'' ''GET'' [''items'', ''42''] = Inr (Some (example_row ''2'' ''/items/:id'')) \<and>
   findMatchingMock (example_store [example_row ''1'' ''/users/:id'', example_row ''2'' ''/items/:id''])
     forgetful_match ''acme'' ''GET'' [''items'', ''42''] = Inr (Some (example_row ''2'' ''/items/:id'')) \<and>
   structural_match ''/items/:id'' ''/items/42'' = Inr (Some [(''id'', ''42'')]) \<and>
   forgetful_match ''/items/:id'' ''/items/42'' = Inr (Some [])"
proof -
  let ?r1 = "example_row ''1'' ''/users/:id''"
  let ?r2 = "example_row ''2'' ''/items/:id''"
  let ?db = "example_store [?r1, ?r2]"
  have u: "toUpperCase ''GET'' = ''GET''" by code_simp
  have p: "profiles_single ?db ''acme'' = \<lparr>data = Some ''u1'', error = None\<rparr>"
    by (simp add: example_store_def)
  have q: "mock_endpoints_select ?db ''u1'' (toUpperCase ''GET'') =
             \<lparr>data = Some [?r1, ?r2], error = None\<rparr>"
    unfolding u by (simp add: example_store_def example_row_def)
  have f1: "fullPathTemplate ?r1 = ''/users/:id''" and f2: "fullPathTemplate ?r2 = ''/items/:id''"
    by (simp_all add: example_full startsWith_def endsWith_def)
  have r: "normalizedReqPath [''items'', ''42''] = ''/items/42''"
    by (simp add: normalizedReqPath_def endsWith_def slice_0_m1_def)
  have s1: "structural_match ''/users/:id'' ''/items/42'' = Inr None"
    and s2: "structural_match ''/items/:id'' ''/items/42'' = Inr (Some [(''id'', ''42'')])"
    by (simp_all add: structural_match_def startsWith_def)
  have fm: "forgetful_match ''/items/:id'' ''/items/42'' = Inr (Some [])"
    by (simp add: forgetful_match_def s2)
  have h: "[?r1, ?r2] = [?r1] @ ?r2 # [] \<and>
           (\<forall>c\<in>set [?r1]. structural_match (fullPathTemplate c) (normalizedReqPath [''items'', ''42'']) = Inr None) \<and>
           structural_match (fullPathTemplate ?r2) (normalizedReqPath [''items'', ''42'']) =
             Inr (Some [(''id'', ''42'')])"
    by (simp add: f1 f2 r s1 s2)
  note c = C8_result_is_the_definition_alone [OF p q, of structural_match "[''items'', ''42'']",
      THEN conjunct1, rule_format, OF h]
  have c2: "findMatchingMock ?db forgetful_match ''acme'' ''GET'' [''items'', ''42''] = Inr (Some ?r2)"
    using c [THEN conjunct2, THEN spec, of forgetful_match] forgetful_same_outcome by (rule mp)
  from c [THEN conjunct1] c2 s2 fm
  show ?thesis by (intro conjI)
qed

text \<open>
  Two requests whose matches capture different values both have the row as their result:
  the result carries no captured value.
\<close>

theorem C8_counterexample:
  "findMatchingMock (example_store [example_row ''1'' ''/items/:id'']) structural_match
     ''acme'' ''GET'' [''items'', ''1''] = Inr (Some (example_row ''1'' ''/items/:id'')) \<and>
   findMatchingMock (example_store [example_row ''1'' ''/items/:id'']) structural_match
     ''acme'' ''GET'' [''items'', ''2''] = Inr (Some (example_row ''1'' ''/items/:id'')) \<and>
   structural_match (fullPathTemplate (example_row ''1'' ''/items/:id''))
     (normalizedReqPath [''items'', ''1'']) = Inr (Some [(''id'', ''1'')]) \<and>
   structural_match (fullPathTemplate (example_row ''1'' ''/items/:id''))
     (normalizedReqPath [''items'', ''2'']) = Inr (Some [(''id'', ''2'')])"
proof -
  have f: "fullPathTemplate (example_row ''1'' ''/items/:id'') = ''/items/:id''"
    by (simp add: example_full startsWith_def endsWith_def)
  have r: "normalizedReqPath [''items'', ''1''] = ''/items/1''"
    "normalizedReqPath [''items'', ''2''] = ''/items/2''"
    by (simp_all add: normalizedReqPath_def endsWith_def slice_0_m1_def)
  have s: "structural_match ''/items/:id'' ''/items/1'' = Inr (Some [(''id'', ''1'')])"
    "structural_match ''/items/:id'' ''/items/2'' = Inr (Some [(''id'', ''2'')])"
    by (simp_all add: structural_match_def startsWith_def)
  have e: "filter (\<lambda>m. user_id m = ''u1'' \<and> http_method m = ''GET'') [example_row ''1'' ''/items/:id'']
           = [example_row ''1'' ''/items/:id'']"
    by (simp add: example_row_def)
  show ?thesis
    unfolding example_lookup e by (simp add: f r s)
qed

lemma match_loop_throws:
  assumes "\<forall>c\<in>set pre. M (fullPathTemplate c) (normalizedReqPath parts) = Inr None"
      and "M (fullPathTemplate m) (normalizedReqPath parts) = Inl e"
  shows "match_loop M parts (pre @ m # post) = Inl e"
  using match_loop_prefix [of pre M parts "m # post"] assms by simp

lemma handleRequest_catch:
  "try_block db M faker JSON_parse platform method prefix
     (case slug of Some ps \<Rightarrow> ps | None \<Rightarrow> []) st = (Inl e, st') \<Longrightarrow>
   handleRequest db M faker JSON_parse platform method prefix slug st = (catch_block e, st')"
  by (simp add: handleRequest_def)

lemma handleRequest_return:
  "try_block db M faker JSON_parse platform method prefix
     (case slug of Some ps \<Rightarrow> ps | None \<Rightarrow> []) st = (Inr response, st') \<Longrightarrow>
   handleRequest db M faker JSON_parse platform method prefix slug st = (response, st')"
  by (simp add: handleRequest_def)

lemma try_block_match_throws:
  "findMatchingMock db M prefix method parts = Inl e \<Longrightarrow>
   try_block db M faker JSON_parse platform method prefix parts st = (Inl e, st)"
  by (simp add: try_block_def)

lemma try_block_no_match:
  "findMatchingMock db M prefix method parts = Inr None \<Longrightarrow>
   try_block db M faker JSON_parse platform method prefix parts st =
     (Inr (NextResponse (JObject [(''error'',
        JString ''Mock definition not found for this path and method.'')]) 404), st)"
  by (simp add: try_block_def new_NextResponse_def)

lemma try_block_stringify_throws:
  "findMatchingMock db M prefix method parts = Inr (Some m) \<Longrightarrow>
   generateMockData faker JSON_parse (response_structure m) (is_array m) (array_count m) st =
     (generated, st') \<Longrightarrow>
   JSON_stringify_throws platform generated = Some e \<Longrightarrow>
   try_block db M faker JSON_parse platform method prefix parts st = (Inl e, st')"
  by (simp add: try_block_def)

lemma try_block_response:
  "findMatchingMock db M prefix method parts = Inr (Some m) \<Longrightarrow>
   generateMockData faker JSON_parse (response_structure m) (is_array m) (array_count m) st =
     (generated, st') \<Longrightarrow>
   JSON_stringify_throws platform generated = None \<Longrightarrow>
   try_block db M faker JSON_parse platform method prefix parts st =
     (new_NextResponse platform generated (status_code m), st')"
  by (simp add: try_block_def)

lemma findMatchingMock_profile_error:
  "error (profiles_single db prefix) \<noteq> None \<Longrightarrow>
   findMatchingMock db M prefix method parts = Inr None"
  by (simp add: findMatchingMock_def Let_def split: option.splits)

lemma findMatchingMock_mocks_error:
  "data (profiles_single db prefix) = Some uid \<Longrightarrow>
   error (mock_endpoints_select db uid (toUpperCase method)) \<noteq> None \<Longrightarrow>
   findMatchingMock db M prefix method parts = Inr None"
  by (simp add: findMatchingMock_def Let_def split: option.splits)

text \<open>
  After a match whose data has a JSON text and whose status the constructor accepts, the
  response carries the status of the row and the generated data.
\<close>

lemma handleRequest_success:
  assumes "findMatchingMock db M prefix method (case slug of Some ps \<Rightarrow> ps | None \<Rightarrow> []) =
             Inr (Some m)"
      and "generateMockData faker JSON_parse (response_structure m) (is_array m) (array_count m) st =
             (generated, st')"
      and "JSON_stringify_throws platform generated = None"
      and "200 \<le> status_code m" "status_code m \<le> 599"
      and "status_code m \<noteq> 204" "status_code m \<noteq> 205" "status_code m \<noteq> 304"
  shows "handleRequest db M faker JSON_parse platform method prefix slug st =
           (NextResponse generated (status_code m), st')"
proof -
  have "try_block db M faker JSON_parse platform method prefix
          (case slug of Some ps \<Rightarrow> ps | None \<Rightarrow> []) st =
        (Inr (NextResponse generated (status_code m)), st')"
    unfolding try_block_response [OF assms(1-3)]
    using assms(4-8) by (simp add: new_NextResponse_def)
  then show ?thesis by (rule handleRequest_return)
qed

text \<open>
  Claim C9, amended. Every error thrown in the \<^verbatim>\<open>try\<close> block of \<^verbatim>\<open>handleRequest\<close>, during
  matching or while the result of the walk is turned into the response, is answered with
  status 500 and a body that holds the generic \<^verbatim>\<open>error\<close> text and, under
  \<^verbatim>\<open>details\<close>, the message of the thrown error. The block throws when the pattern match
  throws at the first row that does not answer no match; after a match, when the generated
  data has no JSON text, and when the status of the row is outside 200 to 599 or is a null
  body status. The walk itself does not throw. An error that the store reports for either
  query is not thrown: the request is answered with status 404.
\<close>

theorem C9_exception_gives_500_with_its_message:
  "catch_block e =
     NextResponse (JObject [(''error'', JString ''Internal Server Error''),
                            (''details'', JString (message e))]) 500 \<and>
   (try_block db M faker JSON_parse platform method prefix
        (case slug of Some ps \<Rightarrow> ps | None \<Rightarrow> []) st = (Inl e, st') \<longrightarrow>
      handleRequest db M faker JSON_parse platform method prefix slug st = (catch_block e, st')) \<and>
   (profiles_single db prefix = \<lparr>data = Some uid, error = None\<rparr> \<and>
    mock_endpoints_select db uid (toUpperCase method) = \<lparr>data = Some (pre @ r # post), error = None\<rparr> \<and>
    (\<forall>c\<in>set pre. M (fullPathTemplate c)
        (normalizedReqPath (case slug of Some ps \<Rightarrow> ps | None \<Rightarrow> [])) = Inr None) \<and>
    M (fullPathTemplate r) (normalizedReqPath (case slug of Some ps \<Rightarrow> ps | None \<Rightarrow> [])) = Inl e \<longrightarrow>
      handleRequest db M faker JSON_parse platform method prefix slug st = (catch_block e, st)) \<and>
   (findMatchingMock db M prefix method (case slug of Some ps \<Rightarrow> ps | None \<Rightarrow> []) = Inr (Some m) \<and>
    generateMockData faker JSON_parse (response_structure m) (is_array m) (array_count m) st =
      (generated, st') \<and>
    JSON_stringify_throws platform generated = Some e \<longrightarrow>
      handleRequest db M faker JSON_parse platform method prefix slug st = (catch_block e, st')) \<and>
   (findMatchingMock db M prefix method (case slug of Some ps \<Rightarrow> ps | None \<Rightarrow> []) = Inr (Some m) \<and>
    generateMockData faker JSON_parse (response_structure m) (is_array m) (array_count m) st =
      (generated, st') \<and>
    JSON_stringify_throws platform generated = None \<and>
    (status_code m < 200 \<or> 599 < status_code m) \<longrightarrow>
      handleRequest db M faker JSON_parse platform method prefix slug st =
        (catch_block (status_RangeError platform), st')) \<and>
   (findMatchingMock db M prefix method (case slug of Some ps \<Rightarrow> ps | None \<Rightarrow> []) = Inr (Some m) \<and>
    generateMockData faker JSON_parse (response_structure m) (is_array m) (array_count m) st =
      (generated, st') \<and>
    JSON_stringify_throws platform generated = None \<and>
    (status_code m = 204 \<or> status_code m = 205 \<or> status_code m = 304) \<longrightarrow>
      handleRequest db M faker JSON_parse platform method prefix slug st =
        (catch_block (null_body_TypeError platform (status_code m)), st')) \<and>
   (error (profiles_single db prefix) \<noteq> None \<longrightarrow>
      handleRequest db M faker JSON_parse platform method prefix slug st =
        (NextResponse (JObject [(''error'',
           JString ''Mock definition not found for this path and method.'')]) 404, st)) \<and>
   (data (profiles_single db prefix) = Some uid \<and>
    error (mock_endpoints_select db uid (toUpperCase method)) \<noteq> None \<longrightarrow>
      handleRequest db M faker JSON_parse platform method prefix slug st =
        (NextResponse (JObject [(''error'',
           JString ''Mock definition not found for this path and method.'')]) 404, st))"
proof (intro conjI impI; (elim conjE)?)
  show "catch_block e =
     NextResponse (JObject [(''error'', JString ''Internal Server Error''),
                            (''details'', JString (message e))]) 500"
    by (simp add: catch_block_def)
next
  assume "try_block db M faker JSON_parse platform method prefix
        (case slug of Some ps \<Rightarrow> ps | None \<Rightarrow> []) st = (Inl e, st')"
  then show "handleRequest db M faker JSON_parse platform method prefix slug st = (catch_block e, st')"
    by (rule handleRequest_catch)
next
  let ?parts = "case slug of Some ps \<Rightarrow> ps | None \<Rightarrow> []"
  assume p: "profiles_single db prefix = \<lparr>data = Some uid, error = None\<rparr>"
    and q: "mock_endpoints_select db uid (toUpperCase method) =
              \<lparr>data = Some (pre @ r # post), error = None\<rparr>"
    and n: "\<forall>c\<in>set pre. M (fullPathTemplate c) (normalizedReqPath ?parts) = Inr None"
    and t: "M (fullPathTemplate r) (normalizedReqPath ?parts) = Inl e"
  have "findMatchingMock db M prefix method ?parts = Inl e"
    unfolding findMatchingMock_rows [OF p q] using n t by (rule match_loop_throws)
  then have "try_block db M faker JSON_parse platform method prefix ?parts st = (Inl e, st)"
    by (rule try_block_match_throws)
  then show "handleRequest db M faker JSON_parse platform method prefix slug st = (catch_block e, st)"
    by (rule handleRequest_catch)
next
  let ?parts = "case slug of Some ps \<Rightarrow> ps | None \<Rightarrow> []"
  assume "findMatchingMock db M prefix method ?parts = Inr (Some m)"
    and "generateMockData faker JSON_parse (response_structure m) (is_array m) (array_count m) st =
      (generated, st')"
    and "JSON_stringify_throws platform generated = Some e"
  then have "try_block db M faker JSON_parse platform method prefix ?parts st = (Inl e, st')"
    by (rule try_block_stringify_throws)
  then show "handleRequest db M faker JSON_parse platform method prefix slug st = (catch_block e, st')"
    by (rule handleRequest_catch)
next
  let ?parts = "case slug of Some ps \<Rightarrow> ps | None \<Rightarrow> []"
  assume a: "findMatchingMock db M prefix method ?parts = Inr (Some m)"
    "generateMockData faker JSON_parse (response_structure m) (is_array m) (array_count m) st =
      (generated, st')"
    "JSON_stringify_throws platform generated = None"
    and s: "status_code m < 200 \<or> 599 < status_code m"
  have "try_block db M faker JSON_parse platform method prefix ?parts st =
          (Inl (status_RangeError platform), st')"
    unfolding try_block_response [OF a] using s by (auto simp: new_NextResponse_def)
  then show "handleRequest db M faker JSON_parse platform method prefix slug st =
        (catch_block (status_RangeError platform), st')"
    by (rule handleRequest_catch)
next
  let ?parts = "case slug of Some ps \<Rightarrow> ps | None \<Rightarrow> []"
  assume a: "findMatchingMock db M prefix method ?parts = Inr (Some m)"
    "generateMockData faker JSON_parse (response_structure m) (is_array m) (array_count m) st =
      (generated, st')"
    "JSON_stringify_throws platform generated = None"
    and s: "status_code m = 204 \<or> status_code m = 205 \<or> status_code m = 304"
  have "try_block db M faker JSON_parse platform method prefix ?parts st =
          (Inl (null_body_TypeError platform (status_code m)), st')"
    unfolding try_block_response [OF a] using s by (auto simp: new_NextResponse_def)
  then show "handleRequest db M faker JSON_parse platform method prefix slug st =
        (catch_block (null_body_TypeError platform (status_code m)), st')"
    by (rule handleRequest_catch)
next
  let ?parts = "case slug of Some ps \<Rightarrow> ps | None \<Rightarrow> []"
  assume "error (profiles_single db prefix) \<noteq> None"
  then have "findMatchingMock db M prefix method ?parts = Inr None"
    by (rule findMatchingMock_profile_error)
  then have "try_block db M faker JSON_parse platform method prefix ?parts st =
     (Inr (NextResponse (JObject [(''error'',
        JString ''Mock definition not found for this path and method.'')]) 404), st)"
    by (rule try_block_no_match)
  then show "handleRequest db M faker JSON_parse platform method prefix slug st =
        (NextResponse (JObject [(''error'',
           JString ''Mock definition not found for this path and method.'')]) 404, st)"
    by (rule handleRequest_return)
next
  let ?parts = "case slug of Some ps \<Rightarrow> ps | None \<Rightarrow> []"
  assume "data (profiles_single db prefix) = Some uid"
    and "error (mock_endpoints_select db uid (toUpperCase method)) \<noteq> None"
  then have "findMatchingMock db M prefix method ?parts = Inr None"
    by (rule findMatchingMock_mocks_error)
  then have "try_block db M faker JSON_parse platform method prefix ?parts st =
     (Inr (NextResponse (JObject [(''error'',
        JString ''Mock definition not found for this path and method.'')]) 404), st)"
    by (rule try_block_no_match)
  then show "handleRequest db M faker JSON_parse platform method prefix slug st =
        (NextResponse (JObject [(''error'',
           JString ''Mock definition not found for this path and method.'')]) 404, st)"
    by (rule handleRequest_return)
qed

lemma bad_pattern_row: "fullPathTemplate (example_row ''1'' ''/items/:'') = ''/items/:''"
  by (simp add: example_full startsWith_def endsWith_def)

lemma example_generated:
  "generateMockData example_faker example_parse
     (response_structure ((example_row ident pattern)\<lparr>status_code := s\<rparr>))
     (is_array ((example_row ident pattern)\<lparr>status_code := s\<rparr>))
     (array_count ((example_row ident pattern)\<lparr>status_code := s\<rparr>)) 0 =
   (JObject [(''n'', JNumber 5)], 0)"
  by (simp add: example_row_def generateMockData_def js_assign_def)

lemma example_found:
  "findMatchingMock (example_store [(example_row ''1'' ''/items/:id'')\<lparr>status_code := s\<rparr>])
     structural_match ''acme'' ''GET'' [''items'', ''7''] =
   Inr (Some ((example_row ''1'' ''/items/:id'')\<lparr>status_code := s\<rparr>))"
proof -
  have f: "fullPathTemplate ((example_row ''1'' ''/items/:id'')\<lparr>status_code := s\<rparr>) = ''/items/:id''"
    by (simp add: fullPathTemplate_def example_row_def startsWith_def endsWith_def)
  have r: "normalizedReqPath [''items'', ''7''] = ''/items/7''"
    by (simp add: normalizedReqPath_def endsWith_def slice_0_m1_def)
  have m: "structural_match ''/items/:id'' ''/items/7'' = Inr (Some [(''id'', ''7'')])"
    by (simp add: structural_match_def startsWith_def)
  have e: "filter (\<lambda>m. user_id m = ''u1'' \<and> http_method m = ''GET'')
             [(example_row ''1'' ''/items/:id'')\<lparr>status_code := s\<rparr>] =
           [(example_row ''1'' ''/items/:id'')\<lparr>status_code := s\<rparr>]"
    by (simp add: example_row_def)
  show ?thesis
    unfolding example_lookup e by (simp add: f r m)
qed

text \<open>
  A row whose pattern the matcher cannot compile; a matched row on a platform where the
  data has no JSON text; matched rows with the status 204 and 100; a store whose query
  fails.
\<close>

theorem C9_witness:
  "handleRequest (example_store [example_row ''1'' ''/items/:'']) throwing_match
     example_faker example_parse example_platform ''GET'' ''acme'' (Some [''items'', ''7'']) 0 =
     (NextResponse (JObject [(''error'', JString ''Internal Server Error''),
                             (''details'', JString ''Missing parameter name at 7'')]) 500, 0) \<and>
   handleRequest (example_store [(example_row ''1'' ''/items/:id'')\<lparr>status_code := 200\<rparr>])
     structural_match example_faker example_parse refusing_platform ''GET'' ''acme''
     (Some [''items'', ''7'']) 0 =
     (NextResponse (JObject [(''error'', JString ''Internal Server Error''),
                             (''details'', JString ''cannot serialize a BigInt'')]) 500, 0) \<and>
   handleRequest (example_store [(example_row ''1'' ''/items/:id'')\<lparr>status_code := 204\<rparr>])
     structural_match example_faker example_parse example_platform ''GET'' ''acme''
     (Some [''items'', ''7'']) 0 =
     (NextResponse (JObject [(''error'', JString ''Internal Server Error''),
                             (''details'', JString ''null body status'')]) 500, 0) \<and>
   handleRequest (example_store [(example_row ''1'' ''/items/:id'')\<lparr>status_code := 100\<rparr>])
     structural_match example_faker example_parse example_platform ''GET'' ''acme''
     (Some [''items'', ''7'']) 0 =
     (NextResponse (JObject [(''error'', JString ''Internal Server Error''),
                             (''details'', JString ''status out of range'')]) 500, 0) \<and>
   handleRequest (failing_store [example_row ''1'' ''/items/:id'']) structural_match
     example_faker example_parse example_platform ''GET'' ''acme'' (Some [''items'', ''7'']) 0 =
     (NextResponse (JObject [(''error'',
        JString ''Mock definition not found for this path and method.'')]) 404, 0)"
proof -
  let ?db = "example_store [example_row ''1'' ''/items/:'']"
  let ?fs = "failing_store [example_row ''1'' ''/items/:id'']"
  let ?row = "\<lambda>s. (example_row ''1'' ''/items/:id'')\<lparr>status_code := s\<rparr>"
  let ?slug = "Some [''items'', ''7'']"
  have u: "toUpperCase ''GET'' = ''GET''" by code_simp
  have p: "profiles_single ?db ''acme'' = \<lparr>data = Some ''u1'', error = None\<rparr>"
    by (simp add: example_store_def)
  have q: "mock_endpoints_select ?db ''u1'' (toUpperCase ''GET'') =
             \<lparr>data = Some ([] @ example_row ''1'' ''/items/:'' # []), error = None\<rparr>"
    unfolding u by (simp add: example_store_def example_row_def)
  have n: "\<forall>c\<in>set []. throwing_match (fullPathTemplate c)
        (normalizedReqPath (case ?slug of Some ps \<Rightarrow> ps | None \<Rightarrow> [])) = Inr None"
    by simp
  have t: "throwing_match (fullPathTemplate (example_row ''1'' ''/items/:''))
        (normalizedReqPath (case ?slug of Some ps \<Rightarrow> ps | None \<Rightarrow> [])) =
        Inl (JsError ''Missing parameter name at 7'')"
    by (simp add: bad_pattern_row throwing_match_def)
  have a: "handleRequest ?db throwing_match example_faker example_parse example_platform
             ''GET'' ''acme'' ?slug 0 =
     (NextResponse (JObject [(''error'', JString ''Internal Server Error''),
                             (''details'', JString ''Missing parameter name at 7'')]) 500, 0)"
    using C9_exception_gives_500_with_its_message [of "JsError ''Missing parameter name at 7''"
        ?db throwing_match example_faker example_parse example_platform "''GET''" "''acme''"
        ?slug 0 _ "''u1''" "[]" "example_row ''1'' ''/items/:''" "[]",
        THEN conjunct2, THEN conjunct2, THEN conjunct1] p q n t
    by (simp add: catch_block_def)
  have fnd: "findMatchingMock (example_store [?row s]) structural_match ''acme'' ''GET''
               (case ?slug of Some ps \<Rightarrow> ps | None \<Rightarrow> []) = Inr (Some (?row s))" for s
    using example_found [of s] by simp
  have gen: "generateMockData example_faker example_parse
     (response_structure (?row s)) (is_array (?row s)) (array_count (?row s)) 0 =
     (JObject [(''n'', JNumber 5)], 0)" for s
    by (rule example_generated)
  have b: "handleRequest (example_store [?row 200]) structural_match example_faker example_parse
             refusing_platform ''GET'' ''acme'' ?slug 0 =
     (NextResponse (JObject [(''error'', JString ''Internal Server Error''),
                             (''details'', JString ''cannot serialize a BigInt'')]) 500, 0)"
    using C9_exception_gives_500_with_its_message [of "JsError ''cannot serialize a BigInt''"
        "example_store [?row 200]" structural_match example_faker example_parse refusing_platform
        "''GET''" "''acme''" ?slug 0 0 _ _ _ _ "?row 200" "JObject [(''n'', JNumber 5)]",
        THEN conjunct2, THEN conjunct2, THEN conjunct2, THEN conjunct1] fnd [of 200] gen [of 200]
    by (simp add: catch_block_def refusing_platform_def)
  have c: "handleRequest (example_store [?row 204]) structural_match example_faker example_parse
             example_platform ''GET'' ''acme'' ?slug 0 =
     (NextResponse (JObject [(''error'', JString ''Internal Server Error''),
                             (''details'', JString ''null body status'')]) 500, 0)"
    using C9_exception_gives_500_with_its_message [of _
        "example_store [?row 204]" structural_match example_faker example_parse example_platform
        "''GET''" "''acme''" ?slug 0 0 _ _ _ _ "?row 204" "JObject [(''n'', JNumber 5)]",
        THEN conjunct2, THEN conjunct2, THEN conjunct2, THEN conjunct2, THEN conjunct2,
        THEN conjunct1] fnd [of 204] gen [of 204]
    by (simp add: catch_block_def example_platform_def)
  have d: "handleRequest (example_store [?row 100]) structural_match example_faker example_parse
             example_platform ''GET'' ''acme'' ?slug 0 =
     (NextResponse (JObject [(''error'', JString ''Internal Server Error''),
                             (''details'', JString ''status out of range'')]) 500, 0)"
    using C9_exception_gives_500_with_its_message [of _
        "example_store [?row 100]" structural_match example_faker example_parse example_platform
        "''GET''" "''acme''" ?slug 0 0 _ _ _ _ "?row 100" "JObject [(''n'', JNumber 5)]",
        THEN conjunct2, THEN conjunct2, THEN conjunct2, THEN conjunct2, THEN conjunct1]
      fnd [of 100] gen [of 100]
    by (simp add: catch_block_def example_platform_def)
  have d1: "data (profiles_single ?fs ''acme'') = Some ''u1''"
    by (simp add: failing_store_def example_store_def)
  have e1: "error (mock_endpoints_select ?fs ''u1'' (toUpperCase ''GET'')) \<noteq> None"
    by (simp add: failing_store_def)
  have e: "handleRequest ?fs structural_match example_faker example_parse example_platform
             ''GET'' ''acme'' ?slug 0 =
     (NextResponse (JObject [(''error'',
        JString ''Mock definition not found for this path and method.'')]) 404, 0)"
    using C9_exception_gives_500_with_its_message [of _ ?fs structural_match example_faker
        example_parse example_platform "''GET''" "''acme''" ?slug 0 _ "''u1''",
        THEN conjunct2, THEN conjunct2, THEN conjunct2, THEN conjunct2, THEN conjunct2,
        THEN conjunct2, THEN conjunct2] d1 e1
    by simp
  from a b c d e show ?thesis by (intro conjI)
qed

text \<open>
  The body of the 500 response holds the message of the thrown error, and an error of the
  store gives status 404.
\<close>

theorem C9_counterexample:
  "fst (handleRequest (example_store [example_row ''1'' ''/items/:'']) throwing_match
     example_faker example_parse example_platform ''GET'' ''acme'' (Some [''items'', ''7'']) 0) =
     NextResponse (JObject [(''error'', JString ''Internal Server Error''),
                            (''details'', JString ''Missing parameter name at 7'')]) 500 \<and>
   status (fst (handleRequest (failing_store [example_row ''1'' ''/items/:id'']) structural_match
     example_faker example_parse example_platform ''GET'' ''acme'' (Some [''items'', ''7'']) 0)) = 404"
proof -
  have u: "toUpperCase ''GET'' = ''GET''" by code_simp
  have e: "filter (\<lambda>m. user_id m = ''u1'' \<and> http_method m = ''GET'') [example_row ''1'' ''/items/:'']
           = [example_row ''1'' ''/items/:'']"
    by (simp add: example_row_def)
  have a: "findMatchingMock (example_store [example_row ''1'' ''/items/:'']) throwing_match
             ''acme'' ''GET'' [''items'', ''7''] = Inl (JsError ''Missing parameter name at 7'')"
    unfolding example_lookup e by (simp add: bad_pattern_row throwing_match_def)
  have b: "findMatchingMock (failing_store [example_row ''1'' ''/items/:id'']) structural_match
             ''acme'' ''GET'' [''items'', ''7''] = Inr None"
    unfolding findMatchingMock_def Let_def u
    by (simp add: failing_store_def example_store_def)
  show ?thesis
    by (simp add: handleRequest_def try_block_def catch_block_def new_NextResponse_def a b)
qed

end
